theory Spec2Isabelle
  imports Complex_Main "HOL-Library.Sublist"
begin

section \<open>The two example notebooks as programs over an opaque library\<close>

text \<open>
  The source consists of two Jupyter notebooks, \<^verbatim>\<open>examples/notebooks/pyplot/histo_1D.ipynb\<close>
  and \<^verbatim>\<open>examples/notebooks/basic/pca.ipynb\<close>. Each is a straight-line Python script
  whose every operation is a call into a library (numpy, vedo). The scripts are embedded as
  state-passing functions; the library is a parameter: a transition function on an
  arbitrary library state, answering every call with a value or an exception. Everything
  a script does is recorded as an event of a trace.
\<close>

subsection \<open>Values, calls and the library\<close>

text \<open>
  Python values as far as the scripts build them themselves. \<open>PyFloat r\<close> stands for the
  double nearest to the rational \<open>r\<close>: Python rounds a decimal literal and the true
  division of two ints correctly, so \<^verbatim>\<open>0.5\<close>, \<^verbatim>\<open>1.3\<close> and \<^verbatim>\<open>4/3\<close> are
  \<open>PyFloat (1/2)\<close>, \<open>PyFloat (13/10)\<close> and \<open>PyFloat (4/3)\<close>. The scripts do no float
  arithmetic of their own. \<open>PyArr\<close> is an array by value (rows of a 2D array are arrays),
  \<open>PyObj\<close> a reference to an object of the library, \<open>PyExc\<close> an exception.
\<close>

datatype val =
    PyNone
  | PyBool bool
  | PyInt int
  | PyFloat rat
  | PyStr string
  | PyTuple "val list"
  | PyArr "val list"
  | PyObj nat
  | PyExc string

text \<open>
  What is called: a module being imported, a function reached by the (dotted) name the
  script writes, or a method of a receiver object. A call carries its positional and its
  keyword arguments, in the order written.
\<close>

datatype callee = Import string | Global string | Method val string

datatype call = Call callee "val list" "(string \<times> val) list"

fun target :: "call \<Rightarrow> callee" where
  "target (Call t as kws) = t"

fun args :: "call \<Rightarrow> val list" where
  "args (Call t as kws) = as"

fun kwargs :: "call \<Rightarrow> (string \<times> val) list" where
  "kwargs (Call t as kws) = kws"

text \<open>A response is \<open>Inl e\<close> when the call raises \<open>e\<close> and \<open>Inr v\<close> when it returns \<open>v\<close>.\<close>

type_synonym response = "val + val"

type_synonym event = "call \<times> response"

type_synonym 'w library = "'w \<Rightarrow> call \<Rightarrow> response \<times> 'w"

subsection \<open>Interpreter state and the statement combinators\<close>

record 'w state =
  world :: 'w
  names :: "string \<rightharpoonup> val"
  trace :: "event list"

type_synonym ('w, 'a) py = "'w state \<Rightarrow> (val + 'a) \<times> 'w state"

definition ret :: "'a \<Rightarrow> ('w, 'a) py" where
  "ret x s = (Inr x, s)"

definition bind :: "('w, 'a) py \<Rightarrow> ('a \<Rightarrow> ('w, 'b) py) \<Rightarrow> ('w, 'b) py" where
  "bind m f s = (case m s of (Inl e, s') \<Rightarrow> (Inl e, s') | (Inr x, s') \<Rightarrow> f x s')"

text \<open>The only way a script reaches the library: the call and its response are logged.\<close>

definition invoke :: "'w library \<Rightarrow> call \<Rightarrow> ('w, val) py" where
  "invoke L c s =
     (case L (world s) c of
        (r, w') \<Rightarrow> (r, s\<lparr>world := w', trace := trace s @ [(c, r)]\<rparr>))"

text \<open>Reading a name that is not bound raises \<^verbatim>\<open>NameError\<close>.\<close>

definition NameError :: "string \<Rightarrow> val" where
  "NameError x = PyExc (''NameError: '' @ x)"

definition var :: "string \<Rightarrow> ('w, val) py" where
  "var x s = (case names s x of None \<Rightarrow> (Inl (NameError x), s) | Some v \<Rightarrow> (Inr v, s))"

definition store :: "string \<Rightarrow> val \<Rightarrow> ('w, unit) py" where
  "store x v s = (Inr (), s\<lparr>names := (names s)(x \<mapsto> v)\<rparr>)"

definition const :: "val \<Rightarrow> ('w, val) py" where
  "const v = ret v"

text \<open>Arguments are evaluated left to right, positional ones before keyword ones.\<close>

fun eval_args :: "('w, val) py list \<Rightarrow> ('w, val list) py" where
  "eval_args [] = ret []"
| "eval_args (e # es) = bind e (\<lambda>v. bind (eval_args es) (\<lambda>vs. ret (v # vs)))"

fun eval_kwargs :: "(string \<times> ('w, val) py) list \<Rightarrow> ('w, (string \<times> val) list) py" where
  "eval_kwargs [] = ret []"
| "eval_kwargs ((k, e) # kes) =
     bind e (\<lambda>v. bind (eval_kwargs kes) (\<lambda>kvs. ret ((k, v) # kvs)))"

definition call_fn ::
  "'w library \<Rightarrow> string \<Rightarrow> ('w, val) py list \<Rightarrow> (string \<times> ('w, val) py) list \<Rightarrow> ('w, val) py"
where
  "call_fn L f es kes =
     bind (eval_args es) (\<lambda>vs. bind (eval_kwargs kes) (\<lambda>kvs. invoke L (Call (Global f) vs kvs)))"

definition call_method ::
  "'w library \<Rightarrow> ('w, val) py \<Rightarrow> string \<Rightarrow> ('w, val) py list \<Rightarrow>
   (string \<times> ('w, val) py) list \<Rightarrow> ('w, val) py"
where
  "call_method L e m es kes =
     bind e (\<lambda>r. bind (eval_args es) (\<lambda>vs. bind (eval_kwargs kes) (\<lambda>kvs.
       invoke L (Call (Method r m) vs kvs))))"

definition import_module :: "'w library \<Rightarrow> string \<Rightarrow> ('w, unit) py" where
  "import_module L m = bind (invoke L (Call (Import m) [] [])) (\<lambda>_. ret ())"

definition assign :: "string \<Rightarrow> ('w, val) py \<Rightarrow> ('w, unit) py" where
  "assign x e = bind e (store x)"

definition expr :: "('w, val) py \<Rightarrow> ('w, unit) py" where
  "expr e = bind e (\<lambda>_. ret ())"

text \<open>
  \<^verbatim>\<open>x += e\<close>: the old value of \<open>x\<close> is read, \<open>e\<close> is evaluated, the in-place addition of
  the old value is called, and \<open>x\<close> is bound to what that call returns.
\<close>

definition aug_add :: "'w library \<Rightarrow> string \<Rightarrow> ('w, val) py \<Rightarrow> ('w, unit) py" where
  "aug_add L x e =
     bind (var x) (\<lambda>v. bind e (\<lambda>y.
       bind (invoke L (Call (Method v ''__iadd__'') [y] [])) (store x)))"

fun block :: "('w, unit) py list \<Rightarrow> ('w, unit) py" where
  "block [] = ret ()"
| "block (m # ms) = bind m (\<lambda>_. block ms)"

subsection \<open>The histogram notebook\<close>

text \<open>
  \<^verbatim>\<open>
  import numpy as np
  from vedo import *
  from vedo.pyplot import histogram
  embedWindow('2d')

  np.random.seed(3)
  data1 = np.random.randn(250)
  data2 = (np.random.rand(250)-0.5)*12

  hst1 = histogram(data1, bins=30, errors=True, aspect=4/3,
                   title='My distributions', c='red', marker='o')

  # pick the 16th bin and color it violet
  hst1.unpack(15).c('violet')
  hst1 += Text3D('Highlight a\nspecial bin', pos=(0.5,20), c='v')

  # A second histogram:
  # make it in same format as hst1 so it can be superimposed
  hst2 = histogram(data2, format=hst1, alpha=0.5)

  # Show both:
  show(hst1, hst2, zoom=1.3)
  \<close>
  The names of the library's functions are bound by the import statements; the model
  identifies a library function by the name the script calls it by.
\<close>

definition histo_1D :: "'w library \<Rightarrow> ('w, unit) py" where
  "histo_1D L = block [
     import_module L ''numpy'',
     import_module L ''vedo'',
     import_module L ''vedo.pyplot'',
     expr (call_fn L ''embedWindow'' [const (PyStr ''2d'')] []),
     expr (call_fn L ''np.random.seed'' [const (PyInt 3)] []),
     assign ''data1'' (call_fn L ''np.random.randn'' [const (PyInt 250)] []),
     assign ''data2''
       (call_method L
          (call_method L (call_fn L ''np.random.rand'' [const (PyInt 250)] [])
             ''__sub__'' [const (PyFloat (1 / 2))] [])
          ''__mul__'' [const (PyInt 12)] []),
     assign ''hst1''
       (call_fn L ''histogram'' [var ''data1'']
          [(''bins'', const (PyInt 30)),
           (''errors'', const (PyBool True)),
           (''aspect'', const (PyFloat (4 / 3))),
           (''title'', const (PyStr ''My distributions'')),
           (''c'', const (PyStr ''red'')),
           (''marker'', const (PyStr ''o''))]),
     expr (call_method L (call_method L (var ''hst1'') ''unpack'' [const (PyInt 15)] [])
             ''c'' [const (PyStr ''violet'')] []),
     aug_add L ''hst1''
       (call_fn L ''Text3D'' [const (PyStr ''Highlight a\<newline>special bin'')]
          [(''pos'', const (PyTuple [PyFloat (1 / 2), PyInt 20])),
           (''c'', const (PyStr ''v''))]),
     assign ''hst2''
       (call_fn L ''histogram'' [var ''data2'']
          [(''format'', var ''hst1''), (''alpha'', const (PyFloat (1 / 2)))]),
     expr (call_fn L ''show'' [var ''hst1'', var ''hst2'']
             [(''zoom'', const (PyFloat (13 / 10)))])
   ]"

subsection \<open>The PCA notebook\<close>

text \<open>
  Cell 0 (its first statement is a docstring, an expression without effect):
  \<^verbatim>\<open>
  from vedo import *
  import numpy as np

  plt = Plotter()

  pts = np.random.randn(500, 3) # random gaussian point cloud

  elli = pcaEllipsoid(pts, pvalue=0.5)  # group of [ellipse, 3 axes]
  plt += elli

  ipts = elli.insidePoints(pts) # select points inside mesh
  opts = elli.insidePoints(pts, invert=True)
  plt += Points(ipts, c="g")
  plt += Points(opts, c="r")

  printc("inside  points #", ipts.N(), c='g')
  printc("outside points #", opts.N(), c='r')
  printc("a-sphericity:", elli.asphericity())
  plt.show()
  \<close>
  Cell 1:
  \<^verbatim>\<open>
  plt.close()
  \<close>
  The cells of a notebook run one after the other in one namespace, and a cell that
  raises stops the run.
\<close>

definition pca_cell0 :: "'w library \<Rightarrow> ('w, unit) py" where
  "pca_cell0 L = block [
     import_module L ''vedo'',
     import_module L ''numpy'',
     assign ''plt'' (call_fn L ''Plotter'' [] []),
     assign ''pts'' (call_fn L ''np.random.randn'' [const (PyInt 500), const (PyInt 3)] []),
     assign ''elli''
       (call_fn L ''pcaEllipsoid'' [var ''pts''] [(''pvalue'', const (PyFloat (1 / 2)))]),
     aug_add L ''plt'' (var ''elli''),
     assign ''ipts'' (call_method L (var ''elli'') ''insidePoints'' [var ''pts''] []),
     assign ''opts''
       (call_method L (var ''elli'') ''insidePoints'' [var ''pts'']
          [(''invert'', const (PyBool True))]),
     aug_add L ''plt'' (call_fn L ''Points'' [var ''ipts''] [(''c'', const (PyStr ''g''))]),
     aug_add L ''plt'' (call_fn L ''Points'' [var ''opts''] [(''c'', const (PyStr ''r''))]),
     expr (call_fn L ''printc''
             [const (PyStr ''inside  points #''), call_method L (var ''ipts'') ''N'' [] []]
             [(''c'', const (PyStr ''g''))]),
     expr (call_fn L ''printc''
             [const (PyStr ''outside points #''), call_method L (var ''opts'') ''N'' [] []]
             [(''c'', const (PyStr ''r''))]),
     expr (call_fn L ''printc''
             [const (PyStr ''a-sphericity:''), call_method L (var ''elli'') ''asphericity'' [] []]
             []),
     expr (call_method L (var ''plt'') ''show'' [] [])
   ]"

definition pca_cell1 :: "'w library \<Rightarrow> ('w, unit) py" where
  "pca_cell1 L = block [expr (call_method L (var ''plt'') ''close'' [] [])]"

definition pca :: "'w library \<Rightarrow> ('w, unit) py" where
  "pca L = block [pca_cell0 L, pca_cell1 L]"

subsection \<open>Runs and their traces\<close>

text \<open>A notebook starts in a fresh interpreter: no name is bound, nothing has been called.\<close>

definition start :: "'w \<Rightarrow> 'w state" where
  "start w = \<lparr>world = w, names = Map.empty, trace = []\<rparr>"

text \<open>The events of a trace that call the function \<open>f\<close>, and those that call a method \<open>m\<close>.\<close>

fun is_method :: "string \<Rightarrow> callee \<Rightarrow> bool" where
  "is_method m (Method r m') = (m' = m)"
| "is_method m (Global f) = False"
| "is_method m (Import f) = False"

definition calls_to :: "string \<Rightarrow> event list \<Rightarrow> event list" where
  "calls_to f tr = filter (\<lambda>e. target (fst e) = Global f) tr"

definition method_calls :: "string \<Rightarrow> event list \<Rightarrow> event list" where
  "method_calls m tr = filter (\<lambda>e. is_method m (target (fst e))) tr"

text \<open>The responses to the calls of a function, and the receivers of the calls of a method.\<close>

definition results :: "string \<Rightarrow> event list \<Rightarrow> response list" where
  "results f tr = map snd (calls_to f tr)"

fun receiver :: "call \<Rightarrow> val option" where
  "receiver (Call (Method r m) as kws) = Some r"
| "receiver (Call (Global f) as kws) = None"
| "receiver (Call (Import f) as kws) = None"

definition receivers :: "string \<Rightarrow> event list \<Rightarrow> val option list" where
  "receivers m tr = map (\<lambda>e. receiver (fst e)) (method_calls m tr)"

text \<open>The sample arrays handed to the histogram calls of a trace.\<close>

definition samples :: "event list \<Rightarrow> val list" where
  "samples tr = map (\<lambda>e. hd (args (fst e))) (calls_to ''histogram'' tr)"

text \<open>A trace is generated by the library from a library state when every response in it
  is the library's answer to the call, in the state the calls before it have left.\<close>

definition answers :: "'w library \<Rightarrow> 'w \<Rightarrow> call \<Rightarrow> response \<Rightarrow> 'w \<Rightarrow> bool" where
  "answers L w c r w' \<longleftrightarrow> L w c = (r, w')"

fun generated :: "'w library \<Rightarrow> 'w \<Rightarrow> event list \<Rightarrow> 'w \<Rightarrow> bool" where
  "generated L w [] w' = (w' = w)"
| "generated L w ((c, r) # es) w' = (\<exists>w1. answers L w c r w1 \<and> generated L w1 es w')"

text \<open>The events of a complete run of the histogram notebook, given what each call returned.\<close>

definition histo_events ::
  "val \<Rightarrow> val \<Rightarrow> val \<Rightarrow> val \<Rightarrow> val \<Rightarrow> val \<Rightarrow> val \<Rightarrow> val \<Rightarrow> val \<Rightarrow> val \<Rightarrow> val \<Rightarrow> val \<Rightarrow> val \<Rightarrow>
   val \<Rightarrow> val \<Rightarrow> val \<Rightarrow> event list"
where
  "histo_events i1 i2 i3 ew sd data1 rnd dif data2 hst1 bin col txt hst1' hst2 shown = [
     (Call (Import ''numpy'') [] [], Inr i1),
     (Call (Import ''vedo'') [] [], Inr i2),
     (Call (Import ''vedo.pyplot'') [] [], Inr i3),
     (Call (Global ''embedWindow'') [PyStr ''2d''] [], Inr ew),
     (Call (Global ''np.random.seed'') [PyInt 3] [], Inr sd),
     (Call (Global ''np.random.randn'') [PyInt 250] [], Inr data1),
     (Call (Global ''np.random.rand'') [PyInt 250] [], Inr rnd),
     (Call (Method rnd ''__sub__'') [PyFloat (1 / 2)] [], Inr dif),
     (Call (Method dif ''__mul__'') [PyInt 12] [], Inr data2),
     (Call (Global ''histogram'') [data1]
        [(''bins'', PyInt 30), (''errors'', PyBool True), (''aspect'', PyFloat (4 / 3)),
         (''title'', PyStr ''My distributions''), (''c'', PyStr ''red''),
         (''marker'', PyStr ''o'')], Inr hst1),
     (Call (Method hst1 ''unpack'') [PyInt 15] [], Inr bin),
     (Call (Method bin ''c'') [PyStr ''violet''] [], Inr col),
     (Call (Global ''Text3D'') [PyStr ''Highlight a\<newline>special bin'']
        [(''pos'', PyTuple [PyFloat (1 / 2), PyInt 20]), (''c'', PyStr ''v'')], Inr txt),
     (Call (Method hst1 ''__iadd__'') [txt] [], Inr hst1'),
     (Call (Global ''histogram'') [data2]
        [(''format'', hst1'), (''alpha'', PyFloat (1 / 2))], Inr hst2),
     (Call (Global ''show'') [hst1', hst2] [(''zoom'', PyFloat (13 / 10))], Inr shown)
   ]"

text \<open>The events of a complete run of the PCA notebook, given what each call returned.\<close>

definition pca_events ::
  "val \<Rightarrow> val \<Rightarrow> val \<Rightarrow> val \<Rightarrow> val \<Rightarrow> val \<Rightarrow> val \<Rightarrow> val \<Rightarrow> val \<Rightarrow> val \<Rightarrow> val \<Rightarrow> val \<Rightarrow> val \<Rightarrow>
   val \<Rightarrow> val \<Rightarrow> val \<Rightarrow> val \<Rightarrow> val \<Rightarrow> val \<Rightarrow> val \<Rightarrow> event list"
where
  "pca_events i1 i2 plt pts elli plt1 ipts opts gp plt2 rp plt3 n1 p1 n2 p2 asph p3 shown clsd = [
     (Call (Import ''vedo'') [] [], Inr i1),
     (Call (Import ''numpy'') [] [], Inr i2),
     (Call (Global ''Plotter'') [] [], Inr plt),
     (Call (Global ''np.random.randn'') [PyInt 500, PyInt 3] [], Inr pts),
     (Call (Global ''pcaEllipsoid'') [pts] [(''pvalue'', PyFloat (1 / 2))], Inr elli),
     (Call (Method plt ''__iadd__'') [elli] [], Inr plt1),
     (Call (Method elli ''insidePoints'') [pts] [], Inr ipts),
     (Call (Method elli ''insidePoints'') [pts] [(''invert'', PyBool True)], Inr opts),
     (Call (Global ''Points'') [ipts] [(''c'', PyStr ''g'')], Inr gp),
     (Call (Method plt1 ''__iadd__'') [gp] [], Inr plt2),
     (Call (Global ''Points'') [opts] [(''c'', PyStr ''r'')], Inr rp),
     (Call (Method plt2 ''__iadd__'') [rp] [], Inr plt3),
     (Call (Method ipts ''N'') [] [], Inr n1),
     (Call (Global ''printc'') [PyStr ''inside  points #'', n1] [(''c'', PyStr ''g'')], Inr p1),
     (Call (Method opts ''N'') [] [], Inr n2),
     (Call (Global ''printc'') [PyStr ''outside points #'', n2] [(''c'', PyStr ''r'')], Inr p2),
     (Call (Method elli ''asphericity'') [] [], Inr asph),
     (Call (Global ''printc'') [PyStr ''a-sphericity:'', asph] [], Inr p3),
     (Call (Method plt3 ''show'') [] [], Inr shown),
     (Call (Method plt3 ''close'') [] [], Inr clsd)
   ]"

subsection \<open>Order of operations and propagation of exceptions\<close>

text \<open>The label of a call names the operation and forgets the values it is applied to.\<close>

fun label :: "call \<Rightarrow> string" where
  "label (Call (Import m) as kws) = ''import '' @ m"
| "label (Call (Global f) as kws) = f"
| "label (Call (Method r m) as kws) = ''.'' @ m"

definition labels :: "event list \<Rightarrow> string list" where
  "labels tr = map (\<lambda>e. label (fst e)) tr"

text \<open>The operations of the two notebooks in textual order.\<close>

definition histo_order :: "string list" where
  "histo_order = [''import numpy'', ''import vedo'', ''import vedo.pyplot'', ''embedWindow'',
     ''np.random.seed'', ''np.random.randn'', ''np.random.rand'', ''.__sub__'', ''.__mul__'',
     ''histogram'', ''.unpack'', ''.c'', ''Text3D'', ''.__iadd__'', ''histogram'', ''show'']"

definition pca_order :: "string list" where
  "pca_order = [''import vedo'', ''import numpy'', ''Plotter'', ''np.random.randn'',
     ''pcaEllipsoid'', ''.__iadd__'', ''.insidePoints'', ''.insidePoints'', ''Points'',
     ''.__iadd__'', ''Points'', ''.__iadd__'', ''.N'', ''printc'', ''.N'', ''printc'',
     ''.asphericity'', ''printc'', ''.show'', ''.close'']"

text \<open>\<open>precedes a b ls\<close>: no occurrence of \<open>a\<close> in \<open>ls\<close> comes after an occurrence of \<open>b\<close>.\<close>

fun precedes :: "'a \<Rightarrow> 'a \<Rightarrow> 'a list \<Rightarrow> bool" where
  "precedes a b [] = True"
| "precedes a b (x # xs) = ((x = b \<longrightarrow> a \<notin> set xs) \<and> precedes a b xs)"

text \<open>A trace is quiet when no call in it raised; \<open>raised e tr\<close> when its last call, and
  only that one, raised, and raised \<open>e\<close>.\<close>

fun quiet :: "event list \<Rightarrow> bool" where
  "quiet [] = True"
| "quiet ((c, Inr v) # es) = quiet es"
| "quiet ((c, Inl e) # es) = False"

definition raised :: "val \<Rightarrow> event list \<Rightarrow> bool" where
  "raised e tr \<longleftrightarrow> tr \<noteq> [] \<and> quiet (butlast tr) \<and> snd (last tr) = Inl e"

text \<open>
  \<open>emits m ls ls'\<close>: from the operations \<open>ls\<close> still to come, \<open>m\<close> performs an initial
  segment, in order; when it completes, \<open>ls'\<close> remain and nothing has raised; when it raises,
  either no call has raised (the interpreter did) or the last call raised that exception.
\<close>

definition emits :: "('w, 'a) py \<Rightarrow> string list \<Rightarrow> string list \<Rightarrow> bool" where
  "emits m ls ls' \<longleftrightarrow>
     (\<forall>s r s'. m s = (r, s') \<longrightarrow>
        (\<exists>new. trace s' = trace s @ new \<and>
           (case r of
              Inr x \<Rightarrow> quiet new \<and> labels new @ ls' = ls
            | Inl e \<Rightarrow> prefix (labels new) ls \<and> (quiet new \<or> raised e new))))"

subsection \<open>Independence of the namespace\<close>

text \<open>
  Two states agree on a set of names when they have the same library state and trace and
  bind each of the names, to the same value. \<open>indep D m D'\<close>: run from states that agree on
  \<open>D\<close>, \<open>m\<close> has the same outcome, trace and library state, and ends in states that
  agree on \<open>D'\<close>.
\<close>

definition agree :: "string set \<Rightarrow> 'w state \<Rightarrow> 'w state \<Rightarrow> bool" where
  "agree D s1 s2 \<longleftrightarrow>
     world s1 = world s2 \<and> trace s1 = trace s2 \<and>
     (\<forall>x\<in>D. \<exists>v. names s1 x = Some v \<and> names s2 x = Some v)"

definition indep :: "string set \<Rightarrow> ('w, 'a) py \<Rightarrow> string set \<Rightarrow> bool" where
  "indep D m D' \<longleftrightarrow>
     (\<forall>s1 s2. agree D s1 s2 \<longrightarrow>
        fst (m s1) = fst (m s2) \<and>
        (case fst (m s1) of
           Inr x \<Rightarrow> agree D' (snd (m s1)) (snd (m s2))
         | Inl e \<Rightarrow> agree {} (snd (m s1)) (snd (m s2))))"

text \<open>What a run shows to the outside: its outcome, the library state and the calls made.\<close>

definition observe :: "(val + 'a) \<times> 'w state \<Rightarrow> (val + 'a) \<times> 'w \<times> event list" where
  "observe p = (fst p, world (snd p), trace (snd p))"

subsection \<open>What the scripts rely on in the library\<close>

text \<open>
  numpy is not part of the repository; its contract is a hypothesis on the library where a
  claim needs it. \<^verbatim>\<open>np.random.randn(n)\<close> and \<^verbatim>\<open>np.random.rand(n)\<close> return an array
  of \<open>n\<close> floats, \<^verbatim>\<open>np.random.randn(n, m)\<close> one of \<open>n\<close> rows of \<open>m\<close> floats.
\<close>

fun is_float :: "val \<Rightarrow> bool" where
  "is_float (PyFloat r) = True"
| "is_float v = False"

fun array1d :: "nat \<Rightarrow> val \<Rightarrow> bool" where
  "array1d n (PyArr xs) = (length xs = n \<and> list_all is_float xs)"
| "array1d n v = False"

fun array2d :: "nat \<Rightarrow> nat \<Rightarrow> val \<Rightarrow> bool" where
  "array2d n m (PyArr rows) = (length rows = n \<and> list_all (array1d m) rows)"
| "array2d n m v = False"

definition numpy_shapes :: "'w library \<Rightarrow> bool" where
  "numpy_shapes L \<longleftrightarrow>
     (\<forall>w n v w'. answers L w (Call (Global ''np.random.randn'') [PyInt n] []) (Inr v) w'
        \<longrightarrow> array1d (nat n) v) \<and>
     (\<forall>w n v w'. answers L w (Call (Global ''np.random.rand'') [PyInt n] []) (Inr v) w'
        \<longrightarrow> array1d (nat n) v) \<and>
     (\<forall>w n m v w'.
        answers L w (Call (Global ''np.random.randn'') [PyInt n, PyInt m] []) (Inr v) w'
        \<longrightarrow> array2d (nat n) (nat m) v)"

text \<open>
  Arithmetic of a one-dimensional array of floats with a scalar, a float or an int that
  fits 64 bits, is elementwise: when it returns, the result is an array of floats of the
  same length, and it is a function of the operands.
\<close>

fun is_scalar :: "val \<Rightarrow> bool" where
  "is_scalar (PyFloat r) = True"
| "is_scalar (PyInt i) = (- (2 ^ 63) \<le> i \<and> i < 2 ^ 63)"
| "is_scalar v = False"

definition array_arith :: "'w library \<Rightarrow> bool" where
  "array_arith L \<longleftrightarrow>
     (\<forall>w1 w2 xs op a v1 v2 w1' w2'.
        op \<in> {''__sub__'', ''__mul__''} \<and> list_all is_float xs \<and> is_scalar a \<and>
        answers L w1 (Call (Method (PyArr xs) op) [a] []) (Inr v1) w1' \<and>
        answers L w2 (Call (Method (PyArr xs) op) [a] []) (Inr v2) w2'
        \<longrightarrow> v1 = v2 \<and> array1d (length xs) v1)"

text \<open>
  Seeding: \<open>gen\<close> reads the state of the random generator off the library state. After a
  call \<^verbatim>\<open>np.random.seed(n)\<close> that returns (numpy raises on a seed it does not accept and
  leaves the generator as it is) the generator state depends on \<open>n\<close> alone. A draw with
  integer dimensions that returns depends on the generator state alone, in its value and
  in the generator state it leaves.
\<close>

fun is_int :: "val \<Rightarrow> bool" where
  "is_int (PyInt i) = True"
| "is_int v = False"

definition seeded :: "'w library \<Rightarrow> ('w \<Rightarrow> 'g) \<Rightarrow> bool" where
  "seeded L gen \<longleftrightarrow>
     (\<forall>w1 w2 n v1 v2 w1' w2'.
        answers L w1 (Call (Global ''np.random.seed'') [PyInt n] []) (Inr v1) w1' \<and>
        answers L w2 (Call (Global ''np.random.seed'') [PyInt n] []) (Inr v2) w2'
        \<longrightarrow> gen w1' = gen w2') \<and>
     (\<forall>w1 w2 f as v1 v2 w1' w2'.
        f \<in> {''np.random.randn'', ''np.random.rand''} \<and> list_all is_int as \<and>
        gen w1 = gen w2 \<and>
        answers L w1 (Call (Global f) as []) (Inr v1) w1' \<and>
        answers L w2 (Call (Global f) as []) (Inr v2) w2'
        \<longrightarrow> v1 = v2 \<and> gen w1' = gen w2')"

text \<open>Python's convention for in-place operators: \<^verbatim>\<open>__iadd__\<close> returns its receiver.\<close>

definition inplace_add :: "'w library \<Rightarrow> bool" where
  "inplace_add L \<longleftrightarrow>
     (\<forall>w r y v w'. answers L w (Call (Method r ''__iadd__'') [y] []) (Inr v) w' \<longrightarrow> v = r)"

subsection \<open>A small library to run the scripts on\<close>

text \<open>
  Its state is the state of the random generator, the next free object reference and the
  number of objects it can hold. A draw fills an array with the generator state and
  advances it; a seed that is not an int from 0 to \<open>2^32 - 1\<close> raises \<^verbatim>\<open>ValueError\<close>
  and leaves the generator as it is; creating an object beyond the capacity raises
  \<^verbatim>\<open>MemoryError\<close>; arithmetic is exact, on rationals.
\<close>

fun shaped :: "val list \<Rightarrow> val \<Rightarrow> val option" where
  "shaped [PyInt n] x = Some (PyArr (replicate (nat n) x))"
| "shaped [PyInt n, PyInt m] x = Some (PyArr (replicate (nat n) (PyArr (replicate (nat m) x))))"
| "shaped as x = None"

fun seed_of :: "val list \<Rightarrow> nat option" where
  "seed_of [PyInt n] = (if 0 \<le> n \<and> n < 2 ^ 32 then Some (nat n) else None)"
| "seed_of as = None"

fun scalar :: "val \<Rightarrow> rat option" where
  "scalar (PyInt i) = Some (of_int i)"
| "scalar (PyFloat r) = Some r"
| "scalar v = None"

fun arith :: "string \<Rightarrow> rat \<Rightarrow> val \<Rightarrow> val" where
  "arith op q x =
     (case scalar x of
        None \<Rightarrow> PyFloat 0
      | Some p \<Rightarrow> PyFloat (if op = ''__sub__'' then p - q else p * q))"

fun toy_arith :: "string \<Rightarrow> val \<Rightarrow> val list \<Rightarrow> response" where
  "toy_arith op (PyArr xs) [a] =
     (case scalar a of
        None \<Rightarrow> Inl (PyExc ''TypeError'')
      | Some q \<Rightarrow> Inr (PyArr (map (arith op q) xs)))"
| "toy_arith op r as = Inl (PyExc ''TypeError'')"

type_synonym toy = "nat \<times> nat \<times> nat"

definition new_object :: "toy \<Rightarrow> response \<times> toy" where
  "new_object w =
     (case w of (g, k, cap) \<Rightarrow>
        if k < cap then (Inr (PyObj k), (g, Suc k, cap))
        else (Inl (PyExc ''MemoryError''), (g, k, cap)))"

fun toy_lib :: "toy \<Rightarrow> call \<Rightarrow> response \<times> toy" where
  "toy_lib (g, k, cap) (Call (Import m) as kws) = (Inr PyNone, (g, k, cap))"
| "toy_lib (g, k, cap) (Call (Global f) as kws) =
     (if f = ''np.random.seed'' then
        (case seed_of as of
           None \<Rightarrow> (Inl (PyExc ''ValueError''), (g, k, cap))
         | Some n \<Rightarrow> (Inr PyNone, (n, k, cap)))
      else if f = ''np.random.randn'' \<or> f = ''np.random.rand'' then
        (case shaped as (PyFloat (of_nat g)) of
           None \<Rightarrow> (Inl (PyExc ''TypeError''), (g, k, cap))
         | Some a \<Rightarrow> (Inr a, (Suc g, k, cap)))
      else if f = ''printc'' \<or> f = ''show'' \<or> f = ''embedWindow'' then (Inr PyNone, (g, k, cap))
      else new_object (g, k, cap))"
| "toy_lib (g, k, cap) (Call (Method r m) as kws) =
     (if m = ''__iadd__'' then (Inr r, (g, k, cap))
      else if m = ''__sub__'' \<or> m = ''__mul__'' then (toy_arith m r as, (g, k, cap))
      else if m = ''show'' \<or> m = ''close'' then (Inr PyNone, (g, k, cap))
      else if m = ''N'' then (Inr (PyInt 0), (g, k, cap))
      else if m = ''asphericity'' then (Inr (PyFloat 0), (g, k, cap))
      else new_object (g, k, cap))"

text \<open>The runs of the two notebooks on it, from generator state 0 and with room for a
  hundred objects.\<close>

abbreviation toy_histo :: "(val + unit) \<times> toy state" where
  "toy_histo \<equiv> histo_1D toy_lib (start (0, 0, 100))"

abbreviation toy_pca :: "(val + unit) \<times> toy state" where
  "toy_pca \<equiv> pca toy_lib (start (0, 0, 100))"

section \<open>The library operations the claims are about\<close>

subsection \<open>The containment test\<close>

text \<open>
  Modelled from the spec: the containment test of the fitted ellipsoid and the point count
  accessor (\<^verbatim>\<open>insidePoints\<close> and \<^verbatim>\<open>N\<close> of the library, which is not among the
  sources). The spec describes "a containment-test method (with an inversion flag for
  outside)" that classifies the points of a cloud "as inside/outside the ellipsoid
  surface", and "a point count accessor". The fitted ellipsoid is represented by its
  containment predicate; the test returns the points of the cloud that are inside, or,
  with the flag set, those that are not.
\<close>

definition insidePoints :: "('p \<Rightarrow> bool) \<Rightarrow> 'p list \<Rightarrow> bool \<Rightarrow> 'p list" where
  "insidePoints inside pts invert = filter (\<lambda>p. if invert then \<not> inside p else inside p) pts"

text \<open>Modelled from the spec: the "point count accessor" of a set of points (\<^verbatim>\<open>N\<close> of the
  library, not among the sources), the number of its points.\<close>

definition N :: "'p list \<Rightarrow> nat" where
  "N pts = length pts"

subsection \<open>Selecting and recolouring a bin\<close>

text \<open>
  Modelled from the spec: the histogram object and its sub-bin selection and recolouring
  (\<^verbatim>\<open>unpack\<close> and \<^verbatim>\<open>c\<close> of the library, which is not among the sources). The spec
  describes the histogram as "a displayable object supporting sub-bin selection and
  recoloring". The script discards the value of \<^verbatim>\<open>hst1.unpack(15).c('violet')\<close>, so the
  recolouring acts on the bin through a reference: objects live in a store, a histogram is
  the list of the references of its bins, \<^verbatim>\<open>unpack(i)\<close> returns the \<open>i\<close>-th reference
  and \<^verbatim>\<open>c(col)\<close> updates the colour of the object referred to. Every attribute
  of a bin other than its colour is in the extension of the record.
\<close>

record bin =
  color :: string

type_synonym 'a store = "nat \<rightharpoonup> 'a bin_scheme"

datatype error = IndexError | DanglingReference

text \<open>Modelled from the spec: "sub-bin selection" (\<^verbatim>\<open>unpack\<close> of the library, not among
  the sources); an index beyond the bins raises, as indexing a Python list does.\<close>

definition unpack :: "nat list \<Rightarrow> nat \<Rightarrow> error + nat" where
  "unpack parts i = (if i < length parts then Inr (parts ! i) else Inl IndexError)"

text \<open>Modelled from the spec: "recoloring" (\<^verbatim>\<open>c\<close> of the library, not among the
  sources), an update of the colour of the object referred to.\<close>

definition c_set :: "'a store \<Rightarrow> nat \<Rightarrow> string \<Rightarrow> error + 'a store" where
  "c_set h b col =
     (case h b of
        None \<Rightarrow> Inl DanglingReference
      | Some obj \<Rightarrow> Inr (h(b \<mapsto> obj\<lparr>color := col\<rparr>)))"

text \<open>Modelled from the spec: the two in sequence, \<^verbatim>\<open>hst.unpack(i).c(col)\<close>.\<close>

definition unpack_c :: "'a store \<Rightarrow> nat list \<Rightarrow> nat \<Rightarrow> string \<Rightarrow> error + 'a store" where
  "unpack_c h parts i col =
     (case unpack parts i of Inl e \<Rightarrow> Inl e | Inr b \<Rightarrow> c_set h b col)"

text \<open>Modelled from the spec: a histogram is well formed in a store when its bins are
  distinct objects of the store.\<close>

definition histogram_wf :: "'a store \<Rightarrow> nat list \<Rightarrow> bool" where
  "histogram_wf h parts \<longleftrightarrow> distinct parts \<and> set parts \<subseteq> dom h"

text \<open>A histogram of 30 red bins, bin \<open>i\<close> carrying the number \<open>i\<close> as its other attribute.\<close>

definition red_bins :: "nat store" where
  "red_bins i = (if i < 30 then Some \<lparr>color = ''red'', \<dots> = i\<rparr> else None)"

section \<open>Symbolic execution of complete runs\<close>

lemma bind_assoc: "bind (bind m f) g = bind m (\<lambda>x. bind (f x) g)"
  by (rule ext) (auto simp: bind_def split: prod.splits sum.splits)

lemma bind_ret: "bind (ret x) f = f x"
  by (rule ext) (simp add: bind_def ret_def)

lemma retE:
  assumes "ret x \<lparr>world = w, names = n, trace = t\<rparr> = (Inr y, s')"
  obtains "y = x" and "s' = \<lparr>world = w, names = n, trace = t\<rparr>"
  using assms by (auto simp: ret_def)

lemma bind_invokeE:
  assumes "bind (invoke L c) f \<lparr>world = w, names = n, trace = t\<rparr> = (Inr x, s')"
  obtains v w' where "answers L w c (Inr v) w'"
    and "f v \<lparr>world = w', names = n, trace = t @ [(c, Inr v)]\<rparr> = (Inr x, s')"
  using assms by (auto simp: bind_def invoke_def answers_def split: prod.splits sum.splits)

lemma invokeE:
  assumes "invoke L c \<lparr>world = w, names = n, trace = t\<rparr> = (Inr v, s')"
  obtains w' where "answers L w c (Inr v) w'"
    and "s' = \<lparr>world = w', names = n, trace = t @ [(c, Inr v)]\<rparr>"
  using assms by (auto simp: invoke_def answers_def split: prod.splits)

lemma bind_varE:
  assumes "bind (var x) f \<lparr>world = w, names = n, trace = t\<rparr> = (Inr r, s')"
  obtains v where "n x = Some v"
    and "f v \<lparr>world = w, names = n, trace = t\<rparr> = (Inr r, s')"
  using assms by (auto simp: bind_def var_def split: option.splits)

lemma bind_storeE:
  assumes "bind (store x v) f \<lparr>world = w, names = n, trace = t\<rparr> = (Inr r, s')"
  obtains "f () \<lparr>world = w, names = n(x \<mapsto> v), trace = t\<rparr> = (Inr r, s')"
  using assms by (auto simp: bind_def store_def)

lemma storeE:
  assumes "store x v \<lparr>world = w, names = n, trace = t\<rparr> = (Inr r, s')"
  obtains "s' = \<lparr>world = w, names = n(x \<mapsto> v), trace = t\<rparr>"
  using assms by (auto simp: store_def)

lemmas stmt_defs = call_fn_def call_method_def import_module_def assign_def expr_def aug_add_def
  block.simps eval_args.simps eval_kwargs.simps const_def bind_assoc bind_ret

lemmas run_elims = bind_invokeE bind_varE bind_storeE retE invokeE storeE

lemma histo_1D_run:
  assumes "histo_1D L \<lparr>world = w, names = n, trace = t\<rparr> = (Inr u, s')"
  shows "\<exists>i1 i2 i3 ew sd data1 rnd dif data2 hst1 bin col ann hst1' hst2 shown w'.
     s' = \<lparr>world = w',
           names = n(''data1'' \<mapsto> data1, ''data2'' \<mapsto> data2,
                     ''hst1'' \<mapsto> hst1', ''hst2'' \<mapsto> hst2),
           trace = t @ histo_events i1 i2 i3 ew sd data1 rnd dif data2 hst1 bin col ann
                         hst1' hst2 shown\<rparr> \<and>
     generated L w
       (histo_events i1 i2 i3 ew sd data1 rnd dif data2 hst1 bin col ann hst1' hst2 shown) w'"
  using assms unfolding histo_1D_def
  apply (simp only: stmt_defs)
  apply (elim run_elims)
  apply clarsimp
  apply (intro exI conjI)
    apply (unfold histo_events_def)
    apply (rule refl)+
  apply (simp only: generated.simps)
  apply (intro exI conjI)
                  apply assumption+
  apply (rule refl)
  done

lemma histo_1D_complete:
  assumes "histo_1D L \<lparr>world = w, names = n, trace = t\<rparr> = (Inr u, s')"
  obtains i1 i2 i3 ew sd data1 rnd dif data2 hst1 bin col ann hst1' hst2 shown w'
  where "s' = \<lparr>world = w',
                names = n(''data1'' \<mapsto> data1, ''data2'' \<mapsto> data2,
                          ''hst1'' \<mapsto> hst1', ''hst2'' \<mapsto> hst2),
                trace = t @ histo_events i1 i2 i3 ew sd data1 rnd dif data2 hst1 bin col ann
                              hst1' hst2 shown\<rparr>"
    and "generated L w
           (histo_events i1 i2 i3 ew sd data1 rnd dif data2 hst1 bin col ann hst1' hst2 shown) w'"
  using histo_1D_run [OF assms] by (elim exE conjE) (rule that)

lemma pca_run:
  assumes "pca L \<lparr>world = w, names = n, trace = t\<rparr> = (Inr u, s')"
  shows "\<exists>i1 i2 plt pts elli plt1 ipts opts gp plt2 rp plt3 n1 p1 n2 p2 asph p3 shown clsd w'.
     s' = \<lparr>world = w',
           names = n(''pts'' \<mapsto> pts, ''elli'' \<mapsto> elli, ''ipts'' \<mapsto> ipts,
                     ''opts'' \<mapsto> opts, ''plt'' \<mapsto> plt3),
           trace = t @ pca_events i1 i2 plt pts elli plt1 ipts opts gp plt2 rp plt3 n1 p1
                         n2 p2 asph p3 shown clsd\<rparr> \<and>
     generated L w
       (pca_events i1 i2 plt pts elli plt1 ipts opts gp plt2 rp plt3 n1 p1 n2 p2 asph p3
          shown clsd) w'"
  using assms unfolding pca_def pca_cell0_def pca_cell1_def
  apply (simp only: stmt_defs)
  apply (elim run_elims)
  apply clarsimp
  apply (intro exI conjI)
    apply (unfold pca_events_def)
    apply (rule refl)+
  apply (simp only: generated.simps)
  apply (intro exI conjI)
                  apply assumption+
  apply (rule refl)
  done

lemma pca_complete:
  assumes "pca L \<lparr>world = w, names = n, trace = t\<rparr> = (Inr u, s')"
  obtains i1 i2 plt pts elli plt1 ipts opts gp plt2 rp plt3 n1 p1 n2 p2 asph p3 shown clsd w'
  where "s' = \<lparr>world = w',
                names = n(''pts'' \<mapsto> pts, ''elli'' \<mapsto> elli, ''ipts'' \<mapsto> ipts,
                          ''opts'' \<mapsto> opts, ''plt'' \<mapsto> plt3),
                trace = t @ pca_events i1 i2 plt pts elli plt1 ipts opts gp plt2 rp plt3 n1 p1
                              n2 p2 asph p3 shown clsd\<rparr>"
    and "generated L w
           (pca_events i1 i2 plt pts elli plt1 ipts opts gp plt2 rp plt3 n1 p1 n2 p2 asph p3
              shown clsd) w'"
  using pca_run [OF assms] by (elim exE conjE) (rule that)

lemma generated_answers:
  "generated L w tr w' \<Longrightarrow> (c, r) \<in> set tr \<Longrightarrow> \<exists>w1 w2. answers L w1 c r w2"
proof (induction tr arbitrary: w)
  case Nil
  then show ?case by simp
next
  case (Cons e tr)
  obtain c' r' where e: "e = (c', r')" by (cases e)
  from Cons.prems(1) e obtain w1 where a: "answers L w c' r' w1" and g: "generated L w1 tr w'"
    by auto
  show ?case
  proof (cases "(c, r) = e")
    case True
    with a e show ?thesis by blast
  next
    case False
    with Cons.prems(2) have "(c, r) \<in> set tr" by simp
    with Cons.IH g show ?thesis by blast
  qed
qed

lemmas trace_simps = calls_to_def method_calls_def

section \<open>Runs on the small library\<close>

lemma bind_invoke_step:
  "bind (invoke L c) f \<lparr>world = w, names = n, trace = t\<rparr> =
     (case L w c of (r, w') \<Rightarrow>
        (case r of Inl e \<Rightarrow> (Inl e, \<lparr>world = w', names = n, trace = t @ [(c, Inl e)]\<rparr>)
         | Inr v \<Rightarrow> f v \<lparr>world = w', names = n, trace = t @ [(c, Inr v)]\<rparr>))"
  by (auto simp: bind_def invoke_def split: prod.splits sum.splits)

lemma invoke_step:
  "invoke L c \<lparr>world = w, names = n, trace = t\<rparr> =
     (case L w c of (r, w') \<Rightarrow> (r, \<lparr>world = w', names = n, trace = t @ [(c, r)]\<rparr>))"
  by (auto simp: invoke_def split: prod.splits sum.splits)

lemma bind_var_step:
  "bind (var x) f \<lparr>world = w, names = n, trace = t\<rparr> =
     (case n x of None \<Rightarrow> (Inl (NameError x), \<lparr>world = w, names = n, trace = t\<rparr>)
      | Some v \<Rightarrow> f v \<lparr>world = w, names = n, trace = t\<rparr>)"
  by (auto simp: bind_def var_def split: option.splits)

lemma bind_store_step:
  "bind (store x v) f \<lparr>world = w, names = n, trace = t\<rparr> =
     f () \<lparr>world = w, names = n(x \<mapsto> v), trace = t\<rparr>"
  by (auto simp: bind_def store_def)

lemma store_step:
  "store x v \<lparr>world = w, names = n, trace = t\<rparr> =
     (Inr (), \<lparr>world = w, names = n(x \<mapsto> v), trace = t\<rparr>)"
  by (auto simp: bind_def store_def)

lemmas run_steps = bind_invoke_step invoke_step bind_var_step bind_store_step store_step ret_def
  new_object_def

lemma toy_histo_completes: "fst (histo_1D toy_lib (start (g, k, k + 100))) = Inr ()"
  unfolding histo_1D_def start_def
  apply (simp only: stmt_defs)
  apply (simp add: run_steps)
  done

lemma toy_pca_completes: "fst (pca toy_lib (start (g, k, k + 100))) = Inr ()"
  unfolding pca_def pca_cell0_def pca_cell1_def start_def
  apply (simp only: stmt_defs)
  apply (simp add: run_steps)
  done

lemma completes_run: "fst (m s) = Inr () \<Longrightarrow> m s = (Inr (), snd (m s))"
  by (simp add: prod_eq_iff)

lemma shaped_1d: "shaped [PyInt n] x = Some (PyArr (replicate (nat n) x))"
  by simp

lemma toy_numpy_shapes: "numpy_shapes toy_lib"
  unfolding numpy_shapes_def answers_def
  by (auto simp: list_all_length)

lemma toy_inplace_add: "inplace_add toy_lib"
  unfolding inplace_add_def answers_def by auto

section \<open>Order of operations and propagation of exceptions\<close>

lemma quiet_append: "quiet (xs @ ys) \<longleftrightarrow> quiet xs \<and> quiet ys"
  by (induction xs rule: quiet.induct) auto

lemma labels_append: "labels (xs @ ys) = labels xs @ labels ys"
  by (simp add: labels_def)

lemma emits_ret: "emits (ret x) ls ls"
  by (auto simp: emits_def ret_def labels_def)

lemma emits_var: "emits (var x) ls ls"
  by (auto simp: emits_def var_def labels_def split: option.splits)

lemma emits_store: "emits (store x v) ls ls"
  by (auto simp: emits_def store_def labels_def)

lemma emits_invoke: "l = label c \<Longrightarrow> emits (invoke L c) (l # ls) ls"
  unfolding emits_def invoke_def
  by (auto simp: labels_def raised_def split: prod.splits sum.splits)

lemma emits_bind:
  assumes m: "emits m ls ls'" and f: "\<And>x. emits (f x) ls' ls''"
  shows "emits (bind m f) ls ls''"
  unfolding emits_def
proof (intro allI impI)
  fix s r s' assume run: "bind m f s = (r, s')"
  obtain r1 s1 where m1: "m s = (r1, s1)" by (cases "m s")
  from m m1 obtain new1 where t1: "trace s1 = trace s @ new1"
    and c1: "case r1 of Inr x \<Rightarrow> quiet new1 \<and> labels new1 @ ls' = ls
             | Inl e \<Rightarrow> prefix (labels new1) ls \<and> (quiet new1 \<or> raised e new1)"
    unfolding emits_def by blast
  show "\<exists>new. trace s' = trace s @ new \<and>
      (case r of Inr x \<Rightarrow> quiet new \<and> labels new @ ls'' = ls
       | Inl e \<Rightarrow> prefix (labels new) ls \<and> (quiet new \<or> raised e new))"
  proof (cases r1)
    case (Inl e)
    with run m1 have "r = Inl e" "s' = s1" by (auto simp: bind_def)
    with t1 c1 Inl show ?thesis by auto
  next
    case (Inr x)
    with run m1 have fx: "f x s1 = (r, s')" by (auto simp: bind_def)
    from f [of x] fx obtain new2 where t2: "trace s' = trace s1 @ new2"
      and c2: "case r of Inr y \<Rightarrow> quiet new2 \<and> labels new2 @ ls'' = ls'
               | Inl e \<Rightarrow> prefix (labels new2) ls' \<and> (quiet new2 \<or> raised e new2)"
      unfolding emits_def by blast
    from c1 Inr have q1: "quiet new1" and l1: "labels new1 @ ls' = ls" by auto
    have tr: "trace s' = trace s @ (new1 @ new2)" using t1 t2 by simp
    show ?thesis
    proof (cases r)
      case (Inr y)
      with c2 q1 l1 have "quiet (new1 @ new2) \<and> labels (new1 @ new2) @ ls'' = ls"
        by (auto simp: quiet_append labels_append)
      with tr Inr show ?thesis by auto
    next
      case (Inl e)
      with c2 have p2: "prefix (labels new2) ls'" and d: "quiet new2 \<or> raised e new2" by auto
      from p2 l1 have p: "prefix (labels (new1 @ new2)) ls"
        by (auto simp: labels_append)
      from d q1 have "quiet (new1 @ new2) \<or> raised e (new1 @ new2)"
        by (auto simp: raised_def quiet_append butlast_append)
      with p tr Inl show ?thesis by auto
    qed
  qed
qed

lemmas emits_rules = emits_bind emits_invoke emits_ret emits_var emits_store

lemma histo_1D_emits: "emits (histo_1D L) histo_order []"
  unfolding histo_1D_def histo_order_def
  apply (simp only: stmt_defs)
  apply (rule emits_rules | simp)+
  done

lemma pca_emits: "emits (pca L) pca_order []"
  unfolding pca_def pca_cell0_def pca_cell1_def pca_order_def
  apply (simp only: stmt_defs)
  apply (rule emits_rules | simp)+
  done

lemma precedes_prefix: "prefix xs ys \<Longrightarrow> precedes a b ys \<Longrightarrow> precedes a b xs"
proof (induction ys arbitrary: xs)
  case Nil
  then show ?case by simp
next
  case (Cons y ys)
  show ?case
  proof (cases xs)
    case Nil
    then show ?thesis by simp
  next
    case (Cons x xs')
    with Cons.prems(1) have x: "x = y" and p: "prefix xs' ys" by auto
    from p have "set xs' \<subseteq> set ys" by (rule set_mono_prefix)
    with Cons.prems(2) Cons.IH [OF p] x Cons show ?thesis by auto
  qed
qed

lemma emits_start:
  assumes e: "emits m ls []" and run: "m (start w) = (r, s')"
  shows "prefix (labels (trace s')) ls"
    and "r = Inr u \<Longrightarrow> labels (trace s') = ls \<and> quiet (trace s')"
    and "\<not> quiet (trace s') \<Longrightarrow>
           \<exists>c e. r = Inl e \<and> last (trace s') = (c, Inl e) \<and> quiet (butlast (trace s'))"
proof -
  from e run obtain new where t: "trace s' = trace (start w) @ new"
    and c: "case r of Inr x \<Rightarrow> quiet new \<and> labels new @ [] = ls
            | Inl e \<Rightarrow> prefix (labels new) ls \<and> (quiet new \<or> raised e new)"
    unfolding emits_def by blast
  from t have t': "trace s' = new" by (simp add: start_def)
  from c t' show "prefix (labels (trace s')) ls" by (cases r) auto
  from c t' show "r = Inr u \<Longrightarrow> labels (trace s') = ls \<and> quiet (trace s')" by auto
  show "\<exists>c e. r = Inl e \<and> last (trace s') = (c, Inl e) \<and> quiet (butlast (trace s'))"
    if nq: "\<not> quiet (trace s')"
  proof (cases r)
    case (Inr x)
    with c t' nq show ?thesis by simp
  next
    case (Inl e)
    with c t' nq have "raised e (trace s')" by auto
    then have "snd (last (trace s')) = Inl e" "quiet (butlast (trace s'))"
      by (auto simp: raised_def)
    with Inl show ?thesis by (cases "last (trace s')") auto
  qed
qed

lemma calls_to_label: "calls_to f tr \<noteq> [] \<Longrightarrow> f \<in> set (labels tr)"
proof -
  assume "calls_to f tr \<noteq> []"
  then obtain e where e: "e \<in> set tr" and t: "target (fst e) = Global f"
    by (auto simp: calls_to_def filter_empty_conv)
  obtain c r where "e = (c, r)" by (cases e)
  with t obtain as kws where "e = (Call (Global f) as kws, r)"
    by (cases c) auto
  with e show ?thesis
    by (force simp: labels_def)
qed

section \<open>Independence of the namespace\<close>

lemma agree_weaken: "agree D s1 s2 \<Longrightarrow> agree {} s1 s2"
  by (simp add: agree_def)

lemma agree_store:
  "agree D s1 s2 \<Longrightarrow>
   agree (insert x D) (s1\<lparr>names := (names s1)(x \<mapsto> v)\<rparr>) (s2\<lparr>names := (names s2)(x \<mapsto> v)\<rparr>)"
  by (auto simp: agree_def)

lemma agree_invoke:
  "agree D s1 s2 \<Longrightarrow> agree D (s1\<lparr>world := w, trace := t\<rparr>) (s2\<lparr>world := w, trace := t\<rparr>)"
  by (simp add: agree_def)

lemma indep_ret: "indep D (ret x) D"
  by (simp add: indep_def ret_def)

lemma indep_var:
  assumes "x \<in> D"
  shows "indep D (var x :: ('w, val) py) D"
  unfolding indep_def
proof (intro allI impI)
  fix s1 s2 :: "'w state"
  assume a: "agree D s1 s2"
  with assms obtain v where "names s1 x = Some v" and "names s2 x = Some v"
    by (auto simp: agree_def)
  with a show "fst (var x s1) = fst (var x s2) \<and>
      (case fst (var x s1) of Inr y \<Rightarrow> agree D (snd (var x s1)) (snd (var x s2))
       | Inl e \<Rightarrow> agree {} (snd (var x s1)) (snd (var x s2)))"
    by (simp add: var_def)
qed

lemma indep_store: "indep D (store x v) (insert x D)"
  by (simp add: indep_def store_def agree_store)

lemma indep_invoke:
  fixes L :: "'w library"
  shows "indep D (invoke L c) D"
  unfolding indep_def
proof (intro allI impI)
  fix s1 s2 :: "'w state"
  assume a: "agree D s1 s2"
  then have w: "world s1 = world s2" and t: "trace s1 = trace s2"
    by (simp_all add: agree_def)
  obtain r w' where l: "L (world s2) c = (r, w')" by (cases "L (world s2) c")
  from a have "agree D (s1\<lparr>world := w', trace := trace s2 @ [(c, r)]\<rparr>)
      (s2\<lparr>world := w', trace := trace s2 @ [(c, r)]\<rparr>)"
    by (rule agree_invoke)
  with l w t show "fst (invoke L c s1) = fst (invoke L c s2) \<and>
      (case fst (invoke L c s1) of
         Inr y \<Rightarrow> agree D (snd (invoke L c s1)) (snd (invoke L c s2))
       | Inl e \<Rightarrow> agree {} (snd (invoke L c s1)) (snd (invoke L c s2)))"
    by (auto simp: invoke_def dest: agree_weaken split: sum.splits)
qed

lemma indep_bind:
  fixes m :: "('w, 'a) py" and f :: "'a \<Rightarrow> ('w, 'b) py"
  assumes m: "indep D m D'" and f: "\<And>x. indep D' (f x) D''"
  shows "indep D (bind m f) D''"
  unfolding indep_def
proof (intro allI impI)
  fix s1 s2 :: "'w state"
  assume a: "agree D s1 s2"
  obtain r1 t1 where m1: "m s1 = (r1, t1)" by (cases "m s1")
  obtain r2 t2 where m2: "m s2 = (r2, t2)" by (cases "m s2")
  from m a have "fst (m s1) = fst (m s2) \<and>
      (case fst (m s1) of Inr x \<Rightarrow> agree D' (snd (m s1)) (snd (m s2))
       | Inl e \<Rightarrow> agree {} (snd (m s1)) (snd (m s2)))"
    unfolding indep_def by blast
  with m1 m2 have r: "r1 = r2"
    and c: "case r1 of Inr x \<Rightarrow> agree D' t1 t2 | Inl e \<Rightarrow> agree {} t1 t2"
    by (auto split: sum.splits)
  show "fst (bind m f s1) = fst (bind m f s2) \<and>
      (case fst (bind m f s1) of Inr x \<Rightarrow> agree D'' (snd (bind m f s1)) (snd (bind m f s2))
       | Inl e \<Rightarrow> agree {} (snd (bind m f s1)) (snd (bind m f s2)))"
  proof (cases r1)
    case (Inl e)
    from m1 m2 r Inl have "m s1 = (Inl e, t1)" and "m s2 = (Inl e, t2)"
      by simp_all
    then have b: "bind m f s1 = (Inl e, t1)" "bind m f s2 = (Inl e, t2)"
      by (simp_all add: bind_def)
    from c Inl have "agree {} t1 t2" by simp
    then show ?thesis unfolding b by simp
  next
    case (Inr x)
    from m1 m2 r Inr have "m s1 = (Inr x, t1)" and "m s2 = (Inr x, t2)"
      by simp_all
    then have b: "bind m f s1 = f x t1" "bind m f s2 = f x t2"
      by (simp_all add: bind_def)
    from c Inr have "agree D' t1 t2" by simp
    with f [of x] show ?thesis
      unfolding b indep_def by blast
  qed
qed

lemmas indep_rules = indep_bind indep_invoke indep_ret indep_var indep_store

lemma histo_1D_indep: "\<exists>D. indep {} (histo_1D L) D"
  unfolding histo_1D_def
  apply (simp only: stmt_defs)
  apply (rule exI)
  apply (rule indep_rules | simp)+
  done

lemma pca_indep: "\<exists>D. indep {} (pca L) D"
  unfolding pca_def pca_cell0_def pca_cell1_def
  apply (simp only: stmt_defs)
  apply (rule exI)
  apply (rule indep_rules | simp)+
  done

lemma indep_observe:
  fixes m :: "('w, 'a) py"
  assumes "indep {} m D"
  shows "observe (m \<lparr>world = w, names = n, trace = t\<rparr>) =
         observe (m \<lparr>world = w, names = n', trace = t\<rparr>)"
proof -
  let ?a = "\<lparr>world = w, names = n, trace = t\<rparr>"
  let ?b = "\<lparr>world = w, names = n', trace = t\<rparr>"
  have "agree {} ?a ?b"
    by (simp add: agree_def)
  with assms have st: "fst (m ?a) = fst (m ?b) \<and>
      (case fst (m ?a) of Inr x \<Rightarrow> agree D (snd (m ?a)) (snd (m ?b))
       | Inl e \<Rightarrow> agree {} (snd (m ?a)) (snd (m ?b)))"
    unfolding indep_def by blast
  then have "agree {} (snd (m ?a)) (snd (m ?b))"
    by (cases "fst (m ?a)") (auto dest: agree_weaken)
  with st show ?thesis
    by (simp add: observe_def agree_def)
qed

section \<open>The small library keeps to the contracts\<close>

lemma toy_histo_run: "toy_histo = (Inr (), snd toy_histo)"
  using toy_histo_completes [of 0 0] by (intro completes_run) simp

lemma toy_pca_run: "toy_pca = (Inr (), snd toy_pca)"
  using toy_pca_completes [of 0 0] by (intro completes_run) simp

lemma toy_histo_fails:
  "fst (histo_1D toy_lib (start (0, 0, 0))) = Inl (PyExc ''MemoryError'') \<and>
   \<not> quiet (trace (snd (histo_1D toy_lib (start (0, 0, 0)))))"
  unfolding histo_1D_def start_def
  apply (simp only: stmt_defs)
  apply (simp add: run_steps)
  done

lemma toy_pca_fails:
  "fst (pca toy_lib (start (0, 0, 1))) = Inl (PyExc ''MemoryError'') \<and>
   \<not> quiet (trace (snd (pca toy_lib (start (0, 0, 1)))))"
  unfolding pca_def pca_cell0_def pca_cell1_def start_def
  apply (simp only: stmt_defs)
  apply (simp add: run_steps)
  done

lemma toy_pca_points:
  "names (snd (pca toy_lib (start (g, 0, 100)))) ''pts'' =
     Some (PyArr (replicate 500 (PyArr (replicate 3 (PyFloat (of_nat g))))))"
  unfolding pca_def pca_cell0_def pca_cell1_def start_def
  apply (simp only: stmt_defs)
  apply (simp add: run_steps)
  done

lemma toy_histo_world: "world (snd toy_histo) = (5, 5, 100)"
  unfolding histo_1D_def start_def
  apply (simp only: stmt_defs)
  apply (simp add: run_steps)
  done

lemma toy_pca_draw:
  "results ''np.random.randn'' (trace (snd (pca toy_lib (start (g, 5, 100))))) =
     [Inr (PyArr (replicate 500 (PyArr (replicate 3 (PyFloat (of_nat g))))))]"
  unfolding pca_def pca_cell0_def pca_cell1_def start_def
  apply (simp only: stmt_defs)
  apply (simp add: run_steps trace_simps results_def)
  done

lemma toy_pca_fresh_draw:
  "results ''np.random.randn'' (trace (snd toy_pca)) =
     [Inr (PyArr (replicate 500 (PyArr (replicate 3 (PyFloat 0)))))]"
  unfolding pca_def pca_cell0_def pca_cell1_def start_def
  apply (simp only: stmt_defs)
  apply (simp add: run_steps trace_simps results_def)
  done

lemma toy_seed:
  "toy_lib (g, k, cap) (Call (Global ''np.random.seed'') as kws) =
     (case seed_of as of
        None \<Rightarrow> (Inl (PyExc ''ValueError''), (g, k, cap))
      | Some n \<Rightarrow> (Inr PyNone, (n, k, cap)))"
  by simp

lemma toy_draw:
  assumes "f \<in> {''np.random.randn'', ''np.random.rand''}"
  shows "toy_lib (g, k, cap) (Call (Global f) as kws) =
     (case shaped as (PyFloat (of_nat g)) of
        None \<Rightarrow> (Inl (PyExc ''TypeError''), (g, k, cap))
      | Some a \<Rightarrow> (Inr a, (Suc g, k, cap)))"
  using assms by auto

lemma toy_arith_op:
  assumes "op \<in> {''__sub__'', ''__mul__''}"
  shows "toy_lib (g, k, cap) (Call (Method r op) as kws) = (toy_arith op r as, (g, k, cap))"
  using assms by auto

lemma toy_seeded: "seeded toy_lib fst"
  unfolding seeded_def answers_def
proof (intro conjI allI impI)
  fix w1 w2 :: toy and n v1 v2 w1' w2'
  assume a: "toy_lib w1 (Call (Global ''np.random.seed'') [PyInt n] []) = (Inr v1, w1') \<and>
       toy_lib w2 (Call (Global ''np.random.seed'') [PyInt n] []) = (Inr v2, w2')"
  obtain g1 k1 c1 where w1: "w1 = (g1, k1, c1)" by (cases w1)
  obtain g2 k2 c2 where w2: "w2 = (g2, k2, c2)" by (cases w2)
  from a show "fst w1' = fst w2'"
    unfolding w1 w2 toy_seed by (auto split: option.splits)
next
  fix w1 w2 :: toy and f as v1 v2 w1' w2'
  assume a: "f \<in> {''np.random.randn'', ''np.random.rand''} \<and> list_all is_int as \<and>
       fst w1 = fst w2 \<and>
       toy_lib w1 (Call (Global f) as []) = (Inr v1, w1') \<and>
       toy_lib w2 (Call (Global f) as []) = (Inr v2, w2')"
  obtain g k1 c1 where w1: "w1 = (g, k1, c1)" by (cases w1)
  with a obtain k2 c2 where w2: "w2 = (g, k2, c2)" by (cases w2) auto
  from a have f: "f \<in> {''np.random.randn'', ''np.random.rand''}" by simp
  from a have "toy_lib (g, k1, c1) (Call (Global f) as []) = (Inr v1, w1')"
    and "toy_lib (g, k2, c2) (Call (Global f) as []) = (Inr v2, w2')"
    unfolding w1 w2 by simp_all
  then show "v1 = v2" "fst w1' = fst w2'"
    unfolding toy_draw [OF f] by (auto split: option.splits)
qed

lemma toy_arith_array:
  "toy_arith op (PyArr xs) [a] = Inr v \<Longrightarrow> array1d (length xs) v"
  by (auto simp: list_all_length split: option.splits)

lemma toy_array_arith: "array_arith toy_lib"
  unfolding array_arith_def answers_def
proof (intro allI impI)
  fix w1 w2 :: toy and xs op a v1 v2 w1' w2'
  assume a: "op \<in> {''__sub__'', ''__mul__''} \<and> list_all is_float xs \<and> is_scalar a \<and>
       toy_lib w1 (Call (Method (PyArr xs) op) [a] []) = (Inr v1, w1') \<and>
       toy_lib w2 (Call (Method (PyArr xs) op) [a] []) = (Inr v2, w2')"
  obtain g1 k1 c1 where w1: "w1 = (g1, k1, c1)" by (cases w1)
  obtain g2 k2 c2 where w2: "w2 = (g2, k2, c2)" by (cases w2)
  from a have op: "op \<in> {''__sub__'', ''__mul__''}" by simp
  from a have r: "toy_arith op (PyArr xs) [a] = Inr v1" "toy_arith op (PyArr xs) [a] = Inr v2"
    unfolding w1 w2 toy_arith_op [OF op] by auto
  then show "v1 = v2 \<and> array1d (length xs) v1"
    using toy_arith_array by auto
qed

section \<open>Seeded draws\<close>

lemma array1d_PyArr:
  "array1d n v \<Longrightarrow> \<exists>xs. v = PyArr xs \<and> length xs = n \<and> list_all is_float xs"
  by (cases v) auto

lemma histo_1D_samples:
  assumes sd: "seeded L gen" and np: "numpy_shapes L" and ar: "array_arith L"
    and g1: "generated L w1
       (histo_events i1 i2 i3 ew sd1 data1 rnd dif data2 hst1 bin col ann hst1' hst2 shown) w1'"
    and g2: "generated L w2
       (histo_events j1 j2 j3 fw sd2 data1b rndb difb data2b hst1b binb colb annb hst1b' hst2b shownb) w2'"
  shows "data1 = data1b \<and> data2 = data2b"
proof -
  from g1 obtain a5 a6 a7 a8 a9 a10
    where s1: "answers L a5 (Call (Global ''np.random.seed'') [PyInt 3] []) (Inr sd1) a6"
      and d1: "answers L a6 (Call (Global ''np.random.randn'') [PyInt 250] []) (Inr data1) a7"
      and r1: "answers L a7 (Call (Global ''np.random.rand'') [PyInt 250] []) (Inr rnd) a8"
      and m1: "answers L a8 (Call (Method rnd ''__sub__'') [PyFloat (1 / 2)] []) (Inr dif) a9"
      and p1: "answers L a9 (Call (Method dif ''__mul__'') [PyInt 12] []) (Inr data2) a10"
    unfolding histo_events_def generated.simps by blast
  from g2 obtain b5 b6 b7 b8 b9 b10
    where s2: "answers L b5 (Call (Global ''np.random.seed'') [PyInt 3] []) (Inr sd2) b6"
      and d2: "answers L b6 (Call (Global ''np.random.randn'') [PyInt 250] []) (Inr data1b) b7"
      and r2: "answers L b7 (Call (Global ''np.random.rand'') [PyInt 250] []) (Inr rndb) b8"
      and m2: "answers L b8 (Call (Method rndb ''__sub__'') [PyFloat (1 / 2)] []) (Inr difb) b9"
      and p2: "answers L b9 (Call (Method difb ''__mul__'') [PyInt 12] []) (Inr data2b) b10"
    unfolding histo_events_def generated.simps by blast
  from sd s1 s2 have e6: "gen a6 = gen b6"
    unfolding seeded_def by blast
  have draw: "v = v' \<and> gen u1 = gen u1'"
    if "gen u = gen u'" "f \<in> {''np.random.randn'', ''np.random.rand''}" "list_all is_int as"
      "answers L u (Call (Global f) as []) (Inr v) u1"
      "answers L u' (Call (Global f) as []) (Inr v') u1'"
    for u u' f as v v' u1 u1'
    using sd that unfolding seeded_def by blast
  from draw [OF e6 _ _ d1 d2] have x1: "data1 = data1b" and e7: "gen a7 = gen b7" by simp_all
  from draw [OF e7 _ _ r1 r2] have x2: "rnd = rndb" by simp
  from np r1 have "array1d (nat 250) rnd"
    unfolding numpy_shapes_def by blast
  then obtain xs where xs: "rnd = PyArr xs" and fxs: "list_all is_float xs"
    by (blast dest: array1d_PyArr)
  have op: "v = v' \<and> array1d (length ys) v"
    if "op \<in> {''__sub__'', ''__mul__''}" "list_all is_float ys" "is_scalar a"
      "answers L u (Call (Method (PyArr ys) op) [a] []) (Inr v) u1"
      "answers L u' (Call (Method (PyArr ys) op) [a] []) (Inr v') u1'"
    for u u' ys op a v v' u1 u1'
    using ar that unfolding array_arith_def by blast
  from op [OF _ fxs _ m1 [unfolded xs] m2 [unfolded x2 [symmetric] xs]]
  have x3: "dif = difb" and "array1d (length xs) dif" by auto
  then obtain ys where ys: "dif = PyArr ys" and fys: "list_all is_float ys"
    by (blast dest: array1d_PyArr)
  from op [OF _ fys _ p1 [unfolded ys] p2 [unfolded x3 [symmetric] ys]]
  have "data2 = data2b" by simp
  with x1 show ?thesis by simp
qed

section \<open>The claims\<close>

text \<open>
  C1 (as amended). In a complete run of the PCA notebook, with numpy keeping to its shape
  contract, there is exactly one call of \<^verbatim>\<open>pcaEllipsoid\<close>; it receives the value that
  the one call \<^verbatim>\<open>np.random.randn(500, 3)\<close> returned, an array of 500 rows of 3 floats,
  and \<^verbatim>\<open>pvalue=0.5\<close>. On the object it returns the script calls \<^verbatim>\<open>insidePoints\<close>
  twice, with the point cloud alone and with the point cloud and \<^verbatim>\<open>invert=True\<close>, and
  \<^verbatim>\<open>asphericity\<close> once. The point count accessor \<^verbatim>\<open>N\<close> is called twice, once on
  each of the two objects that the containment tests returned.
\<close>

theorem ellipsoid_calls:
  assumes run: "pca L (start w) = (Inr (), s')" and np: "numpy_shapes L"
  shows "\<exists>pts elli ipts opts n1 n2 asph.
     calls_to ''np.random.randn'' (trace s') =
       [(Call (Global ''np.random.randn'') [PyInt 500, PyInt 3] [], Inr pts)] \<and>
     array2d 500 3 pts \<and>
     calls_to ''pcaEllipsoid'' (trace s') =
       [(Call (Global ''pcaEllipsoid'') [pts] [(''pvalue'', PyFloat (1 / 2))], Inr elli)] \<and>
     method_calls ''insidePoints'' (trace s') =
       [(Call (Method elli ''insidePoints'') [pts] [], Inr ipts),
        (Call (Method elli ''insidePoints'') [pts] [(''invert'', PyBool True)], Inr opts)] \<and>
     method_calls ''N'' (trace s') =
       [(Call (Method ipts ''N'') [] [], Inr n1), (Call (Method opts ''N'') [] [], Inr n2)] \<and>
     method_calls ''asphericity'' (trace s') =
       [(Call (Method elli ''asphericity'') [] [], Inr asph)]"
proof -
  from run obtain i1 i2 plt pts elli plt1 ipts opts gp plt2 rp plt3 n1 p1 n2 p2 asph p3
      shown clsd w'
    where s': "s' = \<lparr>world = w',
                names = Map.empty(''pts'' \<mapsto> pts, ''elli'' \<mapsto> elli, ''ipts'' \<mapsto> ipts,
                          ''opts'' \<mapsto> opts, ''plt'' \<mapsto> plt3),
                trace = [] @ pca_events i1 i2 plt pts elli plt1 ipts opts gp plt2 rp plt3 n1 p1
                              n2 p2 asph p3 shown clsd\<rparr>"
    and gen: "generated L w
           (pca_events i1 i2 plt pts elli plt1 ipts opts gp plt2 rp plt3 n1 p1 n2 p2 asph p3
              shown clsd) w'"
    unfolding start_def by (rule pca_complete)
  have "(Call (Global ''np.random.randn'') [PyInt 500, PyInt 3] [], Inr pts)
          \<in> set (pca_events i1 i2 plt pts elli plt1 ipts opts gp plt2 rp plt3 n1 p1 n2 p2 asph
                    p3 shown clsd)"
    by (simp add: pca_events_def)
  with gen obtain w1 w2
    where "answers L w1 (Call (Global ''np.random.randn'') [PyInt 500, PyInt 3] []) (Inr pts) w2"
    by (blast dest: generated_answers)
  with np have "array2d (nat 500) (nat 3) pts"
    unfolding numpy_shapes_def by blast
  then have arr: "array2d 500 3 pts" by simp
  show ?thesis
    apply (rule exI [of _ pts], rule exI [of _ elli], rule exI [of _ ipts],
        rule exI [of _ opts], rule exI [of _ n1], rule exI [of _ n2], rule exI [of _ asph])
    using arr apply (simp add: s' pca_events_def trace_simps)
    done
qed

theorem ellipsoid_calls_witness:
  "toy_pca = (Inr (), snd toy_pca) \<and> numpy_shapes toy_lib \<and>
   (\<exists>pts elli ipts opts n1 n2 asph.
     calls_to ''np.random.randn'' (trace (snd toy_pca)) =
       [(Call (Global ''np.random.randn'') [PyInt 500, PyInt 3] [], Inr pts)] \<and>
     array2d 500 3 pts \<and>
     calls_to ''pcaEllipsoid'' (trace (snd toy_pca)) =
       [(Call (Global ''pcaEllipsoid'') [pts] [(''pvalue'', PyFloat (1 / 2))], Inr elli)] \<and>
     method_calls ''insidePoints'' (trace (snd toy_pca)) =
       [(Call (Method elli ''insidePoints'') [pts] [], Inr ipts),
        (Call (Method elli ''insidePoints'') [pts] [(''invert'', PyBool True)], Inr opts)] \<and>
     method_calls ''N'' (trace (snd toy_pca)) =
       [(Call (Method ipts ''N'') [] [], Inr n1), (Call (Method opts ''N'') [] [], Inr n2)] \<and>
     method_calls ''asphericity'' (trace (snd toy_pca)) =
       [(Call (Method elli ''asphericity'') [] [], Inr asph)])"
  by (rule conjI, rule toy_pca_run, rule conjI, rule toy_numpy_shapes,
      rule ellipsoid_calls [OF toy_pca_run toy_numpy_shapes])

text \<open>
  C1 as stated has the script call the point count accessor of the object that the
  ellipsoid fitting returned. On the small library, whose objects are all distinct, the
  fitting returns object 1 and the two calls of \<^verbatim>\<open>N\<close> have the receivers 2 and 3, the
  results of the containment tests: no call of \<^verbatim>\<open>N\<close> has the ellipsoid as its receiver.
\<close>

theorem point_count_receiver_counterexample:
  "fst (pca toy_lib (start (0, 0, 100))) = Inr () \<and>
   results ''pcaEllipsoid'' (trace (snd (pca toy_lib (start (0, 0, 100))))) = [Inr (PyObj 1)] \<and>
   receivers ''N'' (trace (snd (pca toy_lib (start (0, 0, 100))))) =
     [Some (PyObj 2), Some (PyObj 3)] \<and>
   Some (PyObj 1) \<notin> set (receivers ''N'' (trace (snd (pca toy_lib (start (0, 0, 100))))))"
  unfolding pca_def pca_cell0_def pca_cell1_def start_def
  apply (simp only: stmt_defs)
  apply (simp add: run_steps trace_simps results_def receivers_def)
  done

text \<open>
  C2. For any containment predicate and any cloud of 500 points, the two containment tests,
  flag off and flag on, select 500 points together, and every point of the cloud is
  selected by exactly one of them.
\<close>

theorem containment_partition:
  assumes "length pts = 500"
  shows "N (insidePoints inside pts False) + N (insidePoints inside pts True) = 500 \<and>
     (\<forall>i<length pts.
        (pts ! i \<in> set (insidePoints inside pts False)) \<noteq>
        (pts ! i \<in> set (insidePoints inside pts True)))"
proof -
  have "length (filter inside pts) + length (filter (\<lambda>p. \<not> inside p) pts) = length pts"
    by (rule sum_length_filter_compl)
  with assms show ?thesis
    by (auto simp: N_def insidePoints_def)
qed

theorem containment_partition_witness:
  "length (map (\<lambda>i. (int i, 0::int, 0::int)) [0..<500]) = 500 \<and>
   N (insidePoints (\<lambda>(x, y, z). x < 200) (map (\<lambda>i. (int i, 0::int, 0::int)) [0..<500]) False) +
   N (insidePoints (\<lambda>(x, y, z). x < 200) (map (\<lambda>i. (int i, 0::int, 0::int)) [0..<500]) True) = 500"
  using containment_partition [of "map (\<lambda>i. (int i, 0::int, 0::int)) [0..<500]" "\<lambda>(x, y, z). x < 200"]
  by simp

text \<open>
  C3. In a complete run of the histogram notebook, with numpy keeping to its contract, the
  first call of \<^verbatim>\<open>histogram\<close> receives the value that \<^verbatim>\<open>np.random.randn(250)\<close>
  returned, a one-dimensional array of 250 floats, together with exactly the options
  \<^verbatim>\<open>bins=30\<close>, \<^verbatim>\<open>errors=True\<close>, \<^verbatim>\<open>aspect=4/3\<close>, \<^verbatim>\<open>title='My distributions'\<close>,
  \<^verbatim>\<open>c='red'\<close> and \<^verbatim>\<open>marker='o'\<close>. On the object it returns the script calls
  \<^verbatim>\<open>unpack(15)\<close>, recolours the result with \<^verbatim>\<open>c('violet')\<close>, and combines the object
  by \<^verbatim>\<open>+=\<close> with the value of the one \<^verbatim>\<open>Text3D\<close> call; all of these calls return.
\<close>

theorem first_histogram_call:
  assumes run: "histo_1D L (start w) = (Inr (), s')" and np: "numpy_shapes L"
  shows "\<exists>data1 hst1 bin col ann hst1'.
     calls_to ''np.random.randn'' (trace s') =
       [(Call (Global ''np.random.randn'') [PyInt 250] [], Inr data1)] \<and>
     array1d 250 data1 \<and>
     hd (calls_to ''histogram'' (trace s')) =
       (Call (Global ''histogram'') [data1]
          [(''bins'', PyInt 30), (''errors'', PyBool True), (''aspect'', PyFloat (4 / 3)),
           (''title'', PyStr ''My distributions''), (''c'', PyStr ''red''),
           (''marker'', PyStr ''o'')], Inr hst1) \<and>
     method_calls ''unpack'' (trace s') =
       [(Call (Method hst1 ''unpack'') [PyInt 15] [], Inr bin)] \<and>
     method_calls ''c'' (trace s') = [(Call (Method bin ''c'') [PyStr ''violet''] [], Inr col)] \<and>
     calls_to ''Text3D'' (trace s') =
       [(Call (Global ''Text3D'') [PyStr ''Highlight a\<newline>special bin'']
           [(''pos'', PyTuple [PyFloat (1 / 2), PyInt 20]), (''c'', PyStr ''v'')], Inr ann)] \<and>
     method_calls ''__iadd__'' (trace s') =
       [(Call (Method hst1 ''__iadd__'') [ann] [], Inr hst1')]"
proof -
  from run obtain i1 i2 i3 ew sd data1 rnd dif data2 hst1 bin col ann hst1' hst2 shown w'
    where s': "s' = \<lparr>world = w',
                names = Map.empty(''data1'' \<mapsto> data1, ''data2'' \<mapsto> data2,
                          ''hst1'' \<mapsto> hst1', ''hst2'' \<mapsto> hst2),
                trace = [] @ histo_events i1 i2 i3 ew sd data1 rnd dif data2 hst1 bin col ann
                              hst1' hst2 shown\<rparr>"
    and gen: "generated L w
           (histo_events i1 i2 i3 ew sd data1 rnd dif data2 hst1 bin col ann hst1' hst2 shown) w'"
    unfolding start_def by (rule histo_1D_complete)
  have "(Call (Global ''np.random.randn'') [PyInt 250] [], Inr data1)
          \<in> set (histo_events i1 i2 i3 ew sd data1 rnd dif data2 hst1 bin col ann hst1' hst2 shown)"
    by (simp add: histo_events_def)
  with gen obtain w1 w2
    where "answers L w1 (Call (Global ''np.random.randn'') [PyInt 250] []) (Inr data1) w2"
    by (blast dest: generated_answers)
  with np have "array1d (nat 250) data1"
    unfolding numpy_shapes_def by blast
  then have arr: "array1d 250 data1" by simp
  show ?thesis
    apply (rule exI [of _ data1], rule exI [of _ hst1], rule exI [of _ bin],
        rule exI [of _ col], rule exI [of _ ann], rule exI [of _ hst1'])
    using arr apply (simp add: s' histo_events_def trace_simps)
    done
qed

theorem first_histogram_call_witness:
  "histo_1D toy_lib (start (0, 0, 100)) = (Inr (), snd (histo_1D toy_lib (start (0, 0, 100)))) \<and>
   numpy_shapes toy_lib \<and>
   (\<exists>data1 hst1 bin col ann hst1'.
     calls_to ''np.random.randn'' (trace (snd (histo_1D toy_lib (start (0, 0, 100))))) =
       [(Call (Global ''np.random.randn'') [PyInt 250] [], Inr data1)] \<and>
     array1d 250 data1 \<and>
     hd (calls_to ''histogram'' (trace (snd (histo_1D toy_lib (start (0, 0, 100)))))) =
       (Call (Global ''histogram'') [data1]
          [(''bins'', PyInt 30), (''errors'', PyBool True), (''aspect'', PyFloat (4 / 3)),
           (''title'', PyStr ''My distributions''), (''c'', PyStr ''red''),
           (''marker'', PyStr ''o'')], Inr hst1) \<and>
     method_calls ''unpack'' (trace (snd (histo_1D toy_lib (start (0, 0, 100))))) =
       [(Call (Method hst1 ''unpack'') [PyInt 15] [], Inr bin)] \<and>
     method_calls ''c'' (trace (snd (histo_1D toy_lib (start (0, 0, 100))))) =
       [(Call (Method bin ''c'') [PyStr ''violet''] [], Inr col)] \<and>
     calls_to ''Text3D'' (trace (snd (histo_1D toy_lib (start (0, 0, 100))))) =
       [(Call (Global ''Text3D'') [PyStr ''Highlight a\<newline>special bin'']
           [(''pos'', PyTuple [PyFloat (1 / 2), PyInt 20]), (''c'', PyStr ''v'')], Inr ann)] \<and>
     method_calls ''__iadd__'' (trace (snd (histo_1D toy_lib (start (0, 0, 100))))) =
       [(Call (Method hst1 ''__iadd__'') [ann] [], Inr hst1')])"
proof -
  have run: "histo_1D toy_lib (start (0, 0, 100)) =
      (Inr (), snd (histo_1D toy_lib (start (0, 0, 100))))"
    using toy_histo_completes [of 0 0] by (intro completes_run) simp
  show ?thesis
    by (rule conjI, rule run, rule conjI, rule toy_numpy_shapes,
        rule first_histogram_call [OF run toy_numpy_shapes])
qed

text \<open>
  C4. In a complete run of the histogram notebook, the second call of \<^verbatim>\<open>histogram\<close>
  receives the second sample array, the value of \<^verbatim>\<open>(np.random.rand(250)-0.5)*12\<close>,
  with exactly the options \<^verbatim>\<open>format\<close> and \<^verbatim>\<open>alpha=0.5\<close>. The format is the value of
  \<^verbatim>\<open>hst1\<close> after \<^verbatim>\<open>hst1 += Text3D(...)\<close>; where the in-place addition of the library
  returns its receiver, as Python's in-place operators do, that is the object the first
  call of \<^verbatim>\<open>histogram\<close> returned.
\<close>

theorem second_histogram_call:
  assumes run: "histo_1D L (start w) = (Inr (), s')" and ip: "inplace_add L"
  shows "\<exists>rnd dif data2 c1 hst1 hst2.
     calls_to ''np.random.rand'' (trace s') =
       [(Call (Global ''np.random.rand'') [PyInt 250] [], Inr rnd)] \<and>
     method_calls ''__sub__'' (trace s') =
       [(Call (Method rnd ''__sub__'') [PyFloat (1 / 2)] [], Inr dif)] \<and>
     method_calls ''__mul__'' (trace s') =
       [(Call (Method dif ''__mul__'') [PyInt 12] [], Inr data2)] \<and>
     calls_to ''histogram'' (trace s') =
       [(c1, Inr hst1),
        (Call (Global ''histogram'') [data2] [(''format'', hst1), (''alpha'', PyFloat (1 / 2))],
         Inr hst2)]"
proof -
  from run obtain i1 i2 i3 ew sd data1 rnd dif data2 hst1 bin col ann hst1' hst2 shown w'
    where s': "s' = \<lparr>world = w',
                names = Map.empty(''data1'' \<mapsto> data1, ''data2'' \<mapsto> data2,
                          ''hst1'' \<mapsto> hst1', ''hst2'' \<mapsto> hst2),
                trace = [] @ histo_events i1 i2 i3 ew sd data1 rnd dif data2 hst1 bin col ann
                              hst1' hst2 shown\<rparr>"
    and gen: "generated L w
           (histo_events i1 i2 i3 ew sd data1 rnd dif data2 hst1 bin col ann hst1' hst2 shown) w'"
    unfolding start_def by (rule histo_1D_complete)
  have "(Call (Method hst1 ''__iadd__'') [ann] [], Inr hst1')
          \<in> set (histo_events i1 i2 i3 ew sd data1 rnd dif data2 hst1 bin col ann hst1' hst2 shown)"
    by (simp add: histo_events_def)
  with gen obtain w1 w2
    where "answers L w1 (Call (Method hst1 ''__iadd__'') [ann] []) (Inr hst1') w2"
    by (blast dest: generated_answers)
  with ip have same: "hst1' = hst1"
    unfolding inplace_add_def by blast
  show ?thesis
    apply (rule exI [of _ rnd], rule exI [of _ dif], rule exI [of _ data2], rule exI,
        rule exI [of _ hst1], rule exI [of _ hst2])
    apply (simp add: s' same histo_events_def trace_simps)
    done
qed

theorem second_histogram_call_witness:
  "toy_histo = (Inr (), snd toy_histo) \<and> inplace_add toy_lib \<and>
   (\<exists>rnd dif data2 c1 hst1 hst2.
     calls_to ''np.random.rand'' (trace (snd toy_histo)) =
       [(Call (Global ''np.random.rand'') [PyInt 250] [], Inr rnd)] \<and>
     method_calls ''__sub__'' (trace (snd toy_histo)) =
       [(Call (Method rnd ''__sub__'') [PyFloat (1 / 2)] [], Inr dif)] \<and>
     method_calls ''__mul__'' (trace (snd toy_histo)) =
       [(Call (Method dif ''__mul__'') [PyInt 12] [], Inr data2)] \<and>
     calls_to ''histogram'' (trace (snd toy_histo)) =
       [(c1, Inr hst1),
        (Call (Global ''histogram'') [data2] [(''format'', hst1), (''alpha'', PyFloat (1 / 2))],
         Inr hst2)])"
  by (rule conjI, rule toy_histo_run, rule conjI, rule toy_inplace_add,
      rule second_histogram_call [OF toy_histo_run toy_inplace_add])

text \<open>
  C5. On a well-formed histogram with more than 15 bins, \<^verbatim>\<open>unpack(15).c('violet')\<close>
  succeeds and makes bin 15 violet; every other attribute of that bin, every other bin of
  the histogram and every other object of the store are as before, and the histogram
  still has the same, distinct bins.
\<close>

theorem recolour_frame:
  assumes wf: "histogram_wf h parts" and i: "15 < length parts"
  shows "\<exists>h'. unpack_c h parts 15 ''violet'' = Inr h' \<and>
     map_option color (h' (parts ! 15)) = Some ''violet'' \<and>
     map_option bin.more (h' (parts ! 15)) = map_option bin.more (h (parts ! 15)) \<and>
     (\<forall>j<length parts. j \<noteq> 15 \<longrightarrow> h' (parts ! j) = h (parts ! j)) \<and>
     (\<forall>b. b \<noteq> parts ! 15 \<longrightarrow> h' b = h b) \<and>
     histogram_wf h' parts"
proof -
  from wf i have "parts ! 15 \<in> dom h"
    unfolding histogram_wf_def by (meson nth_mem subsetD)
  then obtain obj where obj: "h (parts ! 15) = Some obj" by blast
  let ?h' = "h(parts ! 15 \<mapsto> obj\<lparr>color := ''violet''\<rparr>)"
  from i obj have run: "unpack_c h parts 15 ''violet'' = Inr ?h'"
    by (simp add: unpack_c_def unpack_def c_set_def)
  from wf have d: "distinct parts"
    by (simp add: histogram_wf_def)
  have other: "?h' (parts ! j) = h (parts ! j)" if "j < length parts" "j \<noteq> 15" for j
    using that d i by (simp add: nth_eq_iff_index_eq)
  from wf have wf': "histogram_wf ?h' parts"
    by (auto simp: histogram_wf_def)
  show ?thesis
    using run obj other wf' by (intro exI [of _ ?h']) simp
qed

theorem recolour_frame_witness:
  "histogram_wf red_bins [0..<30] \<and> 15 < length [0..<30] \<and>
   (\<exists>h'. unpack_c red_bins [0..<30] 15 ''violet'' = Inr h' \<and>
     map_option color (h' ([0..<30] ! 15)) = Some ''violet'' \<and>
     map_option bin.more (h' ([0..<30] ! 15)) = map_option bin.more (red_bins ([0..<30] ! 15)) \<and>
     (\<forall>j<length [0..<30]. j \<noteq> 15 \<longrightarrow> h' ([0..<30] ! j) = red_bins ([0..<30] ! j)) \<and>
     (\<forall>b. b \<noteq> [0..<30] ! 15 \<longrightarrow> h' b = red_bins b) \<and>
     histogram_wf h' [0..<30])"
proof -
  have wf: "histogram_wf red_bins [0..<30]"
    by (auto simp: histogram_wf_def red_bins_def)
  have i: "15 < length [0..<30]" by simp
  show ?thesis
    by (rule conjI, rule wf, rule conjI, rule i, rule recolour_frame [OF wf i])
qed

text \<open>
  C6. In a complete run of the histogram notebook there is exactly one call of
  \<^verbatim>\<open>show\<close>; it receives the two histograms (the first under the same convention for
  \<^verbatim>\<open>+=\<close> as in C4) and \<^verbatim>\<open>zoom=1.3\<close>, and it is the last operation of the run.
\<close>

theorem show_call:
  assumes run: "histo_1D L (start w) = (Inr (), s')" and ip: "inplace_add L"
  shows "\<exists>c1 c2 hst1 hst2 shown.
     calls_to ''histogram'' (trace s') = [(c1, Inr hst1), (c2, Inr hst2)] \<and>
     calls_to ''show'' (trace s') =
       [(Call (Global ''show'') [hst1, hst2] [(''zoom'', PyFloat (13 / 10))], Inr shown)] \<and>
     last (trace s') =
       (Call (Global ''show'') [hst1, hst2] [(''zoom'', PyFloat (13 / 10))], Inr shown)"
proof -
  from run obtain i1 i2 i3 ew sd data1 rnd dif data2 hst1 bin col ann hst1' hst2 shown w'
    where s': "s' = \<lparr>world = w',
                names = Map.empty(''data1'' \<mapsto> data1, ''data2'' \<mapsto> data2,
                          ''hst1'' \<mapsto> hst1', ''hst2'' \<mapsto> hst2),
                trace = [] @ histo_events i1 i2 i3 ew sd data1 rnd dif data2 hst1 bin col ann
                              hst1' hst2 shown\<rparr>"
    and gen: "generated L w
           (histo_events i1 i2 i3 ew sd data1 rnd dif data2 hst1 bin col ann hst1' hst2 shown) w'"
    unfolding start_def by (rule histo_1D_complete)
  have "(Call (Method hst1 ''__iadd__'') [ann] [], Inr hst1')
          \<in> set (histo_events i1 i2 i3 ew sd data1 rnd dif data2 hst1 bin col ann hst1' hst2 shown)"
    by (simp add: histo_events_def)
  with gen obtain w1 w2
    where "answers L w1 (Call (Method hst1 ''__iadd__'') [ann] []) (Inr hst1') w2"
    by (blast dest: generated_answers)
  with ip have same: "hst1' = hst1"
    unfolding inplace_add_def by blast
  show ?thesis
    apply (rule exI, rule exI, rule exI [of _ hst1], rule exI [of _ hst2],
        rule exI [of _ shown])
    apply (simp add: s' same histo_events_def trace_simps)
    done
qed

theorem show_call_witness:
  "toy_histo = (Inr (), snd toy_histo) \<and> inplace_add toy_lib \<and>
   (\<exists>c1 c2 hst1 hst2 shown.
     calls_to ''histogram'' (trace (snd toy_histo)) = [(c1, Inr hst1), (c2, Inr hst2)] \<and>
     calls_to ''show'' (trace (snd toy_histo)) =
       [(Call (Global ''show'') [hst1, hst2] [(''zoom'', PyFloat (13 / 10))], Inr shown)] \<and>
     last (trace (snd toy_histo)) =
       (Call (Global ''show'') [hst1, hst2] [(''zoom'', PyFloat (13 / 10))], Inr shown))"
  by (rule conjI, rule toy_histo_run, rule conjI, rule toy_inplace_add,
      rule show_call [OF toy_histo_run toy_inplace_add])

text \<open>
  C7 (as amended). As far as the names they bind and the values they compute go, the two
  notebooks are independent: each of them, run in the namespace that a run of the other
  has left and from the same library state, behaves as it does in a fresh namespace: same
  outcome, same calls with the same arguments and responses, same final library state.
  The state inside the library is not covered: it is shared by scripts that run in one
  interpreter.
\<close>

theorem scripts_independent:
  "observe (pca L \<lparr>world = w, names = names (snd (histo_1D L' s0)), trace = []\<rparr>) =
     observe (pca L (start w)) \<and>
   observe (histo_1D L \<lparr>world = w, names = names (snd (pca L' s0)), trace = []\<rparr>) =
     observe (histo_1D L (start w))"
proof -
  obtain D D' where "indep {} (pca L) D" and "indep {} (histo_1D L) D'"
    using pca_indep histo_1D_indep by blast
  then show ?thesis
    unfolding start_def by (intro conjI indep_observe)
qed

text \<open>
  C7 as stated has either notebook behave the same whether or not the other has run. On
  the small library, the histogram notebook leaves the generator in state 5
  (\<^verbatim>\<open>np.random.seed(3)\<close> and two draws); the PCA notebook run after it in the same
  interpreter draws a point cloud of fives, where a run of its own draws zeros, so what
  the two runs show differs.
\<close>

theorem shared_generator_counterexample:
  "world (snd toy_histo) = (5, 5, 100) \<and>
   results ''np.random.randn''
     (trace (snd (pca toy_lib
        \<lparr>world = world (snd toy_histo), names = names (snd toy_histo), trace = []\<rparr>))) =
     [Inr (PyArr (replicate 500 (PyArr (replicate 3 (PyFloat 5)))))] \<and>
   results ''np.random.randn'' (trace (snd toy_pca)) =
     [Inr (PyArr (replicate 500 (PyArr (replicate 3 (PyFloat 0)))))] \<and>
   observe (pca toy_lib
      \<lparr>world = world (snd toy_histo), names = names (snd toy_histo), trace = []\<rparr>) \<noteq>
     observe toy_pca"
proof -
  let ?after = "pca toy_lib
      \<lparr>world = world (snd toy_histo), names = names (snd toy_histo), trace = []\<rparr>"
  obtain D where "indep {} (pca toy_lib) D"
    using pca_indep by blast
  then have "observe ?after = observe (pca toy_lib (start (world (snd toy_histo))))"
    unfolding start_def by (rule indep_observe)
  then have tr: "trace (snd ?after) = trace (snd (pca toy_lib (start (5, 5, 100))))"
    by (simp add: observe_def toy_histo_world)
  have a: "results ''np.random.randn'' (trace (snd ?after)) =
      [Inr (PyArr (replicate 500 (PyArr (replicate 3 (PyFloat 5)))))]"
    unfolding tr using toy_pca_draw [of 5] by simp
  have b: "results ''np.random.randn'' (trace (snd toy_pca)) =
      [Inr (PyArr (replicate 500 (PyArr (replicate 3 (PyFloat 0)))))]"
    by (rule toy_pca_fresh_draw)
  have "trace (snd ?after) \<noteq> trace (snd toy_pca)"
  proof
    assume "trace (snd ?after) = trace (snd toy_pca)"
    with a b show False by simp
  qed
  then have c: "observe ?after \<noteq> observe toy_pca"
    by (simp add: observe_def)
  from toy_histo_world a b c show ?thesis
    by (intro conjI)
qed

text \<open>
  C8. The calls of any run of either notebook, complete or not, are an initial segment of
  the notebook's operations in textual order, and a complete run performs them all. In
  the PCA notebook the point cloud is therefore drawn before the ellipsoid is fitted, the
  ellipsoid is fitted before a containment test runs, the containment tests and the prints
  come before \<^verbatim>\<open>plt.show()\<close>, and \<^verbatim>\<open>plt.close()\<close> comes after it.
\<close>

theorem textual_order:
  assumes p: "pca L (start w) = (r, s)" and h: "histo_1D L (start w') = (r', s')"
  shows "prefix (labels (trace s)) pca_order \<and>
     (r = Inr () \<longrightarrow> labels (trace s) = pca_order) \<and>
     precedes ''np.random.randn'' ''pcaEllipsoid'' (labels (trace s)) \<and>
     precedes ''pcaEllipsoid'' ''.insidePoints'' (labels (trace s)) \<and>
     precedes ''.insidePoints'' ''.show'' (labels (trace s)) \<and>
     precedes ''printc'' ''.show'' (labels (trace s)) \<and>
     precedes ''.show'' ''.close'' (labels (trace s)) \<and>
     prefix (labels (trace s')) histo_order \<and>
     (r' = Inr () \<longrightarrow> labels (trace s') = histo_order)"
proof -
  have pre: "prefix (labels (trace s)) pca_order"
    using pca_emits p by (rule emits_start(1))
  have full: "r = Inr () \<longrightarrow> labels (trace s) = pca_order"
    using emits_start(2) [OF pca_emits p] by blast
  have pre': "prefix (labels (trace s')) histo_order"
    using histo_1D_emits h by (rule emits_start(1))
  have full': "r' = Inr () \<longrightarrow> labels (trace s') = histo_order"
    using emits_start(2) [OF histo_1D_emits h] by blast
  have o1: "precedes ''np.random.randn'' ''pcaEllipsoid'' pca_order"
    and o2: "precedes ''pcaEllipsoid'' ''.insidePoints'' pca_order"
    and o3: "precedes ''.insidePoints'' ''.show'' pca_order"
    and o4: "precedes ''printc'' ''.show'' pca_order"
    and o5: "precedes ''.show'' ''.close'' pca_order"
    by (simp_all add: pca_order_def)
  show ?thesis
    using pre full pre' full' o1 [THEN precedes_prefix [OF pre]] o2 [THEN precedes_prefix [OF pre]]
      o3 [THEN precedes_prefix [OF pre]] o4 [THEN precedes_prefix [OF pre]]
      o5 [THEN precedes_prefix [OF pre]]
    by (intro conjI)
qed

theorem textual_order_witness:
  "toy_pca = (Inr (), snd toy_pca) \<and> toy_histo = (Inr (), snd toy_histo) \<and>
   labels (trace (snd toy_pca)) = pca_order \<and>
   precedes ''np.random.randn'' ''pcaEllipsoid'' (labels (trace (snd toy_pca))) \<and>
   precedes ''pcaEllipsoid'' ''.insidePoints'' (labels (trace (snd toy_pca))) \<and>
   precedes ''.insidePoints'' ''.show'' (labels (trace (snd toy_pca))) \<and>
   precedes ''printc'' ''.show'' (labels (trace (snd toy_pca))) \<and>
   precedes ''.show'' ''.close'' (labels (trace (snd toy_pca))) \<and>
   labels (trace (snd toy_histo)) = histo_order"
proof -
  from textual_order [OF toy_pca_run toy_histo_run]
  have "labels (trace (snd toy_pca)) = pca_order \<and>
   precedes ''np.random.randn'' ''pcaEllipsoid'' (labels (trace (snd toy_pca))) \<and>
   precedes ''pcaEllipsoid'' ''.insidePoints'' (labels (trace (snd toy_pca))) \<and>
   precedes ''.insidePoints'' ''.show'' (labels (trace (snd toy_pca))) \<and>
   precedes ''printc'' ''.show'' (labels (trace (snd toy_pca))) \<and>
   precedes ''.show'' ''.close'' (labels (trace (snd toy_pca))) \<and>
   labels (trace (snd toy_histo)) = histo_order"
    by blast
  then show ?thesis
    by (intro conjI toy_pca_run toy_histo_run) blast+
qed

text \<open>
  C9. In any run of either notebook in which a library call raises, that call is the last
  operation of the run, every call before it returned, the operations after it in textual
  order are not performed, and the run ends with the exception that the call raised.
\<close>

theorem exceptions_propagate:
  assumes h: "histo_1D L (start w) = (r, s)" and p: "pca L (start w') = (r', s')"
  shows "(\<not> quiet (trace s) \<longrightarrow>
            (\<exists>c e. r = Inl e \<and> last (trace s) = (c, Inl e) \<and> quiet (butlast (trace s))) \<and>
            prefix (labels (trace s)) histo_order) \<and>
         (\<not> quiet (trace s') \<longrightarrow>
            (\<exists>c e. r' = Inl e \<and> last (trace s') = (c, Inl e) \<and> quiet (butlast (trace s'))) \<and>
            prefix (labels (trace s')) pca_order)"
  using emits_start(1,3) [OF histo_1D_emits h] emits_start(1,3) [OF pca_emits p]
  by blast

theorem exceptions_propagate_witness:
  "\<not> quiet (trace (snd (histo_1D toy_lib (start (0, 0, 0))))) \<and>
   \<not> quiet (trace (snd (pca toy_lib (start (0, 0, 1))))) \<and>
   (\<exists>c e. fst (histo_1D toy_lib (start (0, 0, 0))) = Inl e \<and>
      last (trace (snd (histo_1D toy_lib (start (0, 0, 0))))) = (c, Inl e) \<and>
      quiet (butlast (trace (snd (histo_1D toy_lib (start (0, 0, 0))))))) \<and>
   prefix (labels (trace (snd (histo_1D toy_lib (start (0, 0, 0)))))) histo_order \<and>
   (\<exists>c e. fst (pca toy_lib (start (0, 0, 1))) = Inl e \<and>
      last (trace (snd (pca toy_lib (start (0, 0, 1))))) = (c, Inl e) \<and>
      quiet (butlast (trace (snd (pca toy_lib (start (0, 0, 1))))))) \<and>
   prefix (labels (trace (snd (pca toy_lib (start (0, 0, 1)))))) pca_order"
proof -
  have h: "histo_1D toy_lib (start (0, 0, 0)) =
      (fst (histo_1D toy_lib (start (0, 0, 0))), snd (histo_1D toy_lib (start (0, 0, 0))))"
    and p: "pca toy_lib (start (0, 0, 1)) =
      (fst (pca toy_lib (start (0, 0, 1))), snd (pca toy_lib (start (0, 0, 1))))"
    by (rule prod.collapse [symmetric])+
  from toy_histo_fails have nh: "\<not> quiet (trace (snd (histo_1D toy_lib (start (0, 0, 0)))))"
    by (rule conjunct2)
  from toy_pca_fails have np: "\<not> quiet (trace (snd (pca toy_lib (start (0, 0, 1)))))"
    by (rule conjunct2)
  from exceptions_propagate [OF h p] nh np show ?thesis
    by blast
qed

text \<open>
  C10. With a library that keeps to the contracts of seeding, of the shapes of the drawn
  arrays and of array arithmetic (each restricted to calls that return, as numpy keeps
  them), any two complete runs of the histogram notebook bind \<^verbatim>\<open>data1\<close> and
  \<^verbatim>\<open>data2\<close> to the same values, hand the same sample arrays to the two calls of
  \<^verbatim>\<open>histogram\<close>, and make the same first call of \<^verbatim>\<open>histogram\<close>. No run of the PCA
  notebook calls \<^verbatim>\<open>np.random.seed\<close>, and the contracts do not fix its point cloud: the
  small library keeps to them and yields different clouds from different generator states.
\<close>

theorem seeded_samples_repeat:
  assumes sd: "seeded L gen" and np: "numpy_shapes L" and ar: "array_arith L"
    and run1: "histo_1D L (start w1) = (Inr (), s1)"
    and run2: "histo_1D L (start w2) = (Inr (), s2)"
    and run: "pca L (start w) = (r, s)"
  shows "names s1 ''data1'' = names s2 ''data1'' \<and> names s1 ''data1'' \<noteq> None \<and>
     names s1 ''data2'' = names s2 ''data2'' \<and> names s1 ''data2'' \<noteq> None \<and>
     samples (trace s1) = samples (trace s2) \<and>
     samples (trace s1) = [the (names s1 ''data1''), the (names s1 ''data2'')] \<and>
     fst (hd (calls_to ''histogram'' (trace s1))) = fst (hd (calls_to ''histogram'' (trace s2))) \<and>
     calls_to ''np.random.seed'' (trace s) = [] \<and>
     seeded toy_lib fst \<and> numpy_shapes toy_lib \<and> array_arith toy_lib \<and>
     names (snd (pca toy_lib (start (0, 0, 100)))) ''pts'' \<noteq>
       names (snd (pca toy_lib (start (1, 0, 100)))) ''pts''"
proof -
  from run1 obtain i1 i2 i3 ew sd1 data1 rnd dif data2 hst1 bin col ann hst1' hst2 shown w1'
    where s1: "s1 = \<lparr>world = w1',
                names = Map.empty(''data1'' \<mapsto> data1, ''data2'' \<mapsto> data2,
                          ''hst1'' \<mapsto> hst1', ''hst2'' \<mapsto> hst2),
                trace = [] @ histo_events i1 i2 i3 ew sd1 data1 rnd dif data2 hst1 bin col ann
                              hst1' hst2 shown\<rparr>"
    and g1: "generated L w1
           (histo_events i1 i2 i3 ew sd1 data1 rnd dif data2 hst1 bin col ann hst1' hst2 shown) w1'"
    unfolding start_def by (rule histo_1D_complete)
  from run2 obtain j1 j2 j3 fw sd2 data1b rndb difb data2b hst1b binb colb annb hst1b' hst2b shownb w2'
    where s2: "s2 = \<lparr>world = w2',
                names = Map.empty(''data1'' \<mapsto> data1b, ''data2'' \<mapsto> data2b,
                          ''hst1'' \<mapsto> hst1b', ''hst2'' \<mapsto> hst2b),
                trace = [] @ histo_events j1 j2 j3 fw sd2 data1b rndb difb data2b hst1b binb colb annb
                              hst1b' hst2b shownb\<rparr>"
    and g2: "generated L w2
           (histo_events j1 j2 j3 fw sd2 data1b rndb difb data2b hst1b binb colb annb hst1b' hst2b shownb) w2'"
    unfolding start_def by (rule histo_1D_complete)
  from histo_1D_samples [OF sd np ar g1 g2] have eq: "data1 = data1b" "data2 = data2b"
    by simp_all
  have a: "names s1 ''data1'' = names s2 ''data1'' \<and> names s1 ''data1'' \<noteq> None \<and>
     names s1 ''data2'' = names s2 ''data2'' \<and> names s1 ''data2'' \<noteq> None"
    by (simp add: s1 s2 eq)
  have b: "samples (trace s1) = samples (trace s2) \<and>
     samples (trace s1) = [the (names s1 ''data1''), the (names s1 ''data2'')] \<and>
     fst (hd (calls_to ''histogram'' (trace s1))) = fst (hd (calls_to ''histogram'' (trace s2)))"
    by (simp add: s1 s2 eq samples_def calls_to_def histo_events_def)
  have "prefix (labels (trace s)) pca_order"
    using pca_emits run by (rule emits_start(1))
  then have "set (labels (trace s)) \<subseteq> set pca_order"
    by (rule set_mono_prefix)
  then have "''np.random.seed'' \<notin> set (labels (trace s))"
    by (auto simp: pca_order_def)
  then have c: "calls_to ''np.random.seed'' (trace s) = []"
    using calls_to_label by blast
  have d: "names (snd (pca toy_lib (start (0, 0, 100)))) ''pts'' \<noteq>
       names (snd (pca toy_lib (start (1, 0, 100)))) ''pts''"
    by (simp add: toy_pca_points)
  from a b c d toy_seeded toy_numpy_shapes toy_array_arith show ?thesis
    by (elim conjE) (intro conjI; assumption)
qed

theorem seeded_samples_repeat_witness:
  "seeded toy_lib fst \<and> numpy_shapes toy_lib \<and> array_arith toy_lib \<and>
   toy_histo = (Inr (), snd toy_histo) \<and>
   histo_1D toy_lib (start (5, 7, 107)) = (Inr (), snd (histo_1D toy_lib (start (5, 7, 107)))) \<and>
   toy_pca = (Inr (), snd toy_pca) \<and>
   names (snd toy_histo) ''data1'' = names (snd (histo_1D toy_lib (start (5, 7, 107)))) ''data1'' \<and>
   names (snd toy_histo) ''data2'' = names (snd (histo_1D toy_lib (start (5, 7, 107)))) ''data2'' \<and>
   samples (trace (snd toy_histo)) = samples (trace (snd (histo_1D toy_lib (start (5, 7, 107))))) \<and>
   calls_to ''np.random.seed'' (trace (snd toy_pca)) = []"
proof -
  have run2: "histo_1D toy_lib (start (5, 7, 107)) =
      (Inr (), snd (histo_1D toy_lib (start (5, 7, 107))))"
    using toy_histo_completes [of 5 7] by (intro completes_run) simp
  from seeded_samples_repeat [OF toy_seeded toy_numpy_shapes toy_array_arith toy_histo_run run2
      toy_pca_run]
  have "names (snd toy_histo) ''data1'' = names (snd (histo_1D toy_lib (start (5, 7, 107)))) ''data1'' \<and>
   names (snd toy_histo) ''data2'' = names (snd (histo_1D toy_lib (start (5, 7, 107)))) ''data2'' \<and>
   samples (trace (snd toy_histo)) = samples (trace (snd (histo_1D toy_lib (start (5, 7, 107))))) \<and>
   calls_to ''np.random.seed'' (trace (snd toy_pca)) = []"
    by blast
  then show ?thesis
    by (intro conjI toy_seeded toy_numpy_shapes toy_array_arith toy_histo_run run2 toy_pca_run)
      blast+
qed

end
